theory Spec2Isabelle
  imports
    Main
    "HOL-Library.Char_ord"
    "HOL-Library.List_Lexorder"
    "HOL-Library.Word"
begin

section \<open>Results of Go functions\<close>

text \<open>
  A Go function of the device transport either returns a value, returns one of the
  error values the package builds, or panics. Each error site of the source has its
  own constructor; \<open>ClientNotConnected\<close> is the error \<open>ErrNotConnected\<close> of the MQTT
  client library, \<open>LibraryError\<close> carries the text of any other error of that library,
  and \<open>ContextError\<close> the value of \<open>ctx.Err()\<close>.
\<close>

datatype error =
    MalformedConnectionString
  | HostNameBlank
  | SharedAccessKeyBlank
  | CorruptInput
  | EscapeError
  | AtoiSyntax
  | AtoiRange
  | InvalidSemicolon
  | UrlParseError
  | MalformedC2DTopic
  | UnexpectedValueCount nat
  | MalformedMethodTopic
  | MalformedTwinTopic
  | RidNotAvailable
  | RidParseError
  | AlreadyConnected
  | NotConnected
  | ClientNotConnected
  | RequestFailed int
  | RequestTimedOut
  | ContextError string
  | LibraryError string

datatype panic =
    IndexOutOfRange
  | NilDereference
  | TypeAssertionFailed
  | ResponseSendingBlocked
  | NilMapAssignment

datatype 'a result = Ok 'a | Err error | Panic panic

section \<open>Strings\<close>

text \<open>
  A Go string is a sequence of bytes, as a HOL \<open>string\<close> is. \<open>Split\<close> is
  \<open>strings.Split\<close> with a one-byte separator: it cuts at every occurrence and always
  returns at least one piece. \<open>Cut\<close> is \<open>strings.Cut\<close> with a one-byte separator, and
  \<open>SplitN2\<close> is \<open>strings.SplitN(s, sep, 2)\<close>.
\<close>

fun Split :: "char \<Rightarrow> string \<Rightarrow> string list" where
  "Split sep [] = [Nil]"
| "Split sep (x # xs) =
     (if x = sep then [] # Split sep xs
      else (case Split sep xs of
              [] \<Rightarrow> [x # Nil]
            | y # ys \<Rightarrow> (x # y) # ys))"

fun Cut :: "char \<Rightarrow> string \<Rightarrow> string \<times> string \<times> bool" where
  "Cut sep [] = ([], [], False)"
| "Cut sep (x # xs) =
     (if x = sep then ([], xs, True)
      else (case Cut sep xs of (b, a, found) \<Rightarrow> (x # b, a, found)))"

definition SplitN2 :: "char \<Rightarrow> string \<Rightarrow> string list" where
  "SplitN2 sep s = (case Cut sep s of (b, a, found) \<Rightarrow> if found then [b, a] else [s])"

section \<open>Credentials (credentials/sas.go)\<close>

text \<open>
  Points in time are nanoseconds since the Unix epoch. The zero value of Go's
  \<open>time.Time\<close> is midnight of 1 January of year 1, UTC.
\<close>

type_synonym time = int

definition zero_time :: time where
  "zero_time = - 62135596800 * 1000000000"

record Credentials =
  HostName :: string
  DeviceID :: string
  SharedAccessKey :: string
  SharedAccessKeyName :: string
  now :: time

definition empty_Credentials :: Credentials where
  "empty_Credentials =
     \<lparr>HostName = [], DeviceID = [], SharedAccessKey = [], SharedAccessKeyName = [],
      now = zero_time\<rparr>"

text \<open>
  The body of the loop of \<open>ParseConnectionString\<close>: \<open>c\<close> is the split chunk, \<open>c[0]\<close>
  always exists, and \<open>c[1]\<close> panics when the chunk held no \<open>=\<close>.
\<close>

definition index1 :: "string list \<Rightarrow> string result" where
  "index1 c = (if 1 < length c then Ok (c ! 1) else Panic IndexOutOfRange)"

definition parse_chunk :: "Credentials \<Rightarrow> string \<Rightarrow> Credentials result" where
  "parse_chunk m chunk =
     (let c = SplitN2 (CHR ''='') chunk;
          c0 = c ! 0
      in if c0 = ''HostName'' then
           (case index1 c of Ok v \<Rightarrow> Ok (m\<lparr>HostName := v\<rparr>) | Err e \<Rightarrow> Err e | Panic p \<Rightarrow> Panic p)
         else if c0 = ''DeviceId'' then
           (case index1 c of Ok v \<Rightarrow> Ok (m\<lparr>DeviceID := v\<rparr>) | Err e \<Rightarrow> Err e | Panic p \<Rightarrow> Panic p)
         else if c0 = ''SharedAccessKey'' then
           (case index1 c of Ok v \<Rightarrow> Ok (m\<lparr>SharedAccessKey := v\<rparr>) | Err e \<Rightarrow> Err e | Panic p \<Rightarrow> Panic p)
         else if c0 = ''SharedAccessKeyName'' then
           (case index1 c of Ok v \<Rightarrow> Ok (m\<lparr>SharedAccessKeyName := v\<rparr>) | Err e \<Rightarrow> Err e | Panic p \<Rightarrow> Panic p)
         else Ok m)"

fun parse_chunks :: "Credentials \<Rightarrow> string list \<Rightarrow> Credentials result" where
  "parse_chunks m [] = Ok m"
| "parse_chunks m (chunk # chunks) =
     (case parse_chunk m chunk of
        Ok m' \<Rightarrow> parse_chunks m' chunks
      | Err e \<Rightarrow> Err e
      | Panic p \<Rightarrow> Panic p)"

definition ParseConnectionString :: "string \<Rightarrow> Credentials result" where
  "ParseConnectionString cs =
     (let chunks = Split (CHR '';'') cs
      in if length chunks \<noteq> 3 \<and> length chunks \<noteq> 4 then Err MalformedConnectionString
         else parse_chunks empty_Credentials chunks)"

section \<open>Escaping (net/url)\<close>

text \<open>
  The functions of Go's \<open>net/url\<close>, \<open>strconv\<close> and \<open>strings\<close> packages that the
  transport calls, written out after the standard library (as of Go 1.17 and later,
  where a semicolon in a query is an error and a control byte in a URL is refused). \<open>unescape sp s\<close> is the
  library's \<open>unescape\<close>: every \<open>%XY\<close> becomes the byte with hexadecimal digits \<open>XY\<close>,
  a \<open>%\<close> that is not followed by two hexadecimal digits is an error, and \<open>+\<close> becomes
  a space when \<open>sp\<close> holds (the mode of query components). \<open>QueryUnescape\<close> is the
  mode of query components, \<open>PathUnescape\<close> the mode used for paths and fragments.
\<close>

abbreviation between :: "char \<Rightarrow> char \<Rightarrow> char \<Rightarrow> bool" where
  "between lo hi c \<equiv> lo \<le> c \<and> c \<le> hi"

definition isdigit :: "char \<Rightarrow> bool" where
  "isdigit c = between (CHR ''0'') (CHR ''9'') c"

definition isalpha :: "char \<Rightarrow> bool" where
  "isalpha c = (between (CHR ''a'') (CHR ''z'') c \<or> between (CHR ''A'') (CHR ''Z'') c)"

definition ishex :: "char \<Rightarrow> bool" where
  "ishex c = (isdigit c \<or> between (CHR ''a'') (CHR ''f'') c \<or> between (CHR ''A'') (CHR ''F'') c)"

definition unhex :: "char \<Rightarrow> nat" where
  "unhex c =
     (if isdigit c then of_char c - of_char CHR ''0''
      else if between (CHR ''a'') (CHR ''f'') c then of_char c - of_char CHR ''a'' + 10
      else if between (CHR ''A'') (CHR ''F'') c then of_char c - of_char CHR ''A'' + 10
      else 0)"

fun unescape :: "bool \<Rightarrow> string \<Rightarrow> string result" where
  "unescape sp [] = Ok []"
| "unescape sp (c # cs) =
     (if c = CHR ''%'' then
        (case cs of
           h1 # h2 # rest \<Rightarrow>
             if ishex h1 \<and> ishex h2 then
               (case unescape sp rest of
                  Ok t \<Rightarrow> Ok (char_of (unhex h1 * 16 + unhex h2) # t)
                | Err e \<Rightarrow> Err e
                | Panic p \<Rightarrow> Panic p)
             else Err EscapeError
         | _ \<Rightarrow> Err EscapeError)
      else
        (case unescape sp cs of
           Ok t \<Rightarrow> Ok ((if c = CHR ''+'' \<and> sp then CHR '' '' else c) # t)
         | Err e \<Rightarrow> Err e
         | Panic p \<Rightarrow> Panic p))"

definition QueryUnescape :: "string \<Rightarrow> string result" where
  "QueryUnescape s = unescape True s"

definition PathUnescape :: "string \<Rightarrow> string result" where
  "PathUnescape s = unescape False s"

text \<open>
  \<open>QueryEscape\<close>: letters, digits and \<open>- _ . ~\<close> stay, a space becomes \<open>+\<close>, every
  other byte becomes \<open>%XY\<close> with upper-case hexadecimal digits.
\<close>

definition unreserved :: "char \<Rightarrow> bool" where
  "unreserved c = (isalpha c \<or> isdigit c \<or>
     c = CHR ''-'' \<or> c = CHR ''_'' \<or> c = CHR ''.'' \<or> c = CHR ''~'')"

definition upperhex :: "nat \<Rightarrow> char" where
  "upperhex n = ''0123456789ABCDEF'' ! (n mod 16)"

definition escape_byte :: "char \<Rightarrow> string" where
  "escape_byte c =
     (if unreserved c then [c]
      else if c = CHR '' '' then ''+''
      else [CHR ''%'', upperhex (of_char c div 16), upperhex (of_char c mod 16)])"

definition QueryEscape :: "string \<Rightarrow> string" where
  "QueryEscape s = concat (map escape_byte s)"

section \<open>Query strings (net/url)\<close>

text \<open>
  \<open>url.Values\<close> is a Go map from keys to lists of values. It is kept as an association
  list with distinct keys; \<open>add_value\<close> is \<open>m[key] = append(m[key], value)\<close> and
  \<open>set_value\<close> is \<open>m[key] = []string{value}\<close>.
\<close>

type_synonym Values = "(string \<times> string list) list"

fun add_value :: "string \<Rightarrow> string \<Rightarrow> Values \<Rightarrow> Values" where
  "add_value k v [] = [(k, [v])]"
| "add_value k v ((k', vs) # m) =
     (if k = k' then (k', vs @ [v]) # m else (k', vs) # add_value k v m)"

fun set_value :: "string \<Rightarrow> string \<Rightarrow> Values \<Rightarrow> Values" where
  "set_value k v [] = [(k, [v])]"
| "set_value k v ((k', vs) # m) =
     (if k = k' then (k', [v]) # m else (k', vs) # set_value k v m)"

text \<open>
  \<open>parseQuery\<close> walks the pieces between \<open>&\<close>. A piece with a semicolon sets the
  error and is skipped, an empty piece is skipped, a piece whose key or value does not
  unescape records the error (unless one is recorded already) and is skipped; every
  other piece appends its value to its key. The loop of the library cuts the query at
  the next \<open>&\<close> until nothing is left, which visits the pieces of \<open>Split\<close>.
\<close>

fun parseQuery :: "Values \<Rightarrow> error option \<Rightarrow> string list \<Rightarrow> Values \<times> error option" where
  "parseQuery m err [] = (m, err)"
| "parseQuery m err (piece # pieces) =
     (if CHR '';'' \<in> set piece then parseQuery m (Some InvalidSemicolon) pieces
      else if piece = [] then parseQuery m err pieces
      else
        (case Cut (CHR ''='') piece of (key, val, _) \<Rightarrow>
           (case QueryUnescape key of
              Ok key' \<Rightarrow>
                (case QueryUnescape val of
                   Ok val' \<Rightarrow> parseQuery (add_value key' val' m) err pieces
                 | _ \<Rightarrow> parseQuery m (if err = None then Some EscapeError else err) pieces)
            | _ \<Rightarrow> parseQuery m (if err = None then Some EscapeError else err) pieces)))"

definition ParseQuery :: "string \<Rightarrow> Values \<times> error option" where
  "ParseQuery query = parseQuery [] None (Split (CHR ''&'') query)"

text \<open>
  \<open>Values.Encode\<close>: the keys in sorted order, each value of a key as
  \<open>QueryEscape key = QueryEscape value\<close>, the pairs joined by \<open>&\<close>.
\<close>

fun join :: "string \<Rightarrow> string list \<Rightarrow> string" where
  "join sep [] = []"
| "join sep [x] = x"
| "join sep (x # y # ys) = x @ sep @ join sep (y # ys)"

definition encode_key :: "Values \<Rightarrow> string \<Rightarrow> string list" where
  "encode_key m k =
     map (\<lambda>v. QueryEscape k @ ''='' @ QueryEscape v)
       (case map_of m k of None \<Rightarrow> [] | Some vs \<Rightarrow> vs)"

definition Encode :: "Values \<Rightarrow> string" where
  "Encode m = join ''&'' (concat (map (encode_key m) (sort (remdups (map fst m)))))"

definition get_values :: "Values \<Rightarrow> string \<Rightarrow> string list" where
  "get_values m k = (case map_of m k of None \<Rightarrow> [] | Some vs \<Rightarrow> vs)"

section \<open>URLs (net/url)\<close>

text \<open>
  \<open>url.Parse\<close>, as far as the path and the query of the result go. The raw URL is cut
  at the first \<open>#\<close>; the part before it must hold no control byte; a leading scheme
  (letters, then letters, digits, \<open>+ - .\<close>, up to a colon) is split off; the rest is
  cut at the first \<open>?\<close> into path and raw query. A rest without a leading slash is
  opaque under a scheme, and without a scheme its first segment must hold no colon.
  A rest starting with \<open>//\<close> (and not \<open>///\<close> when there is no scheme) carries an
  authority up to the next slash. Whether the library accepts an authority (user,
  host and port syntax) is the parameter \<open>pa\<close>: the transport's topics never reach it.
  Path and fragment are unescaped in path mode. Every failure of \<open>url.Parse\<close> is the
  one error \<open>UrlParseError\<close>.
\<close>

record URL =
  Scheme :: string
  Opaque :: string
  Authority :: string
  Path :: string
  RawQuery :: string
  Fragment :: string

definition empty_URL :: URL where
  "empty_URL = \<lparr>Scheme = [], Opaque = [], Authority = [], Path = [], RawQuery = [],
                 Fragment = []\<rparr>"

definition HasPrefix :: "string \<Rightarrow> string \<Rightarrow> bool" where
  "HasPrefix s pre = (take (length pre) s = pre)"

definition TrimRight :: "string \<Rightarrow> string \<Rightarrow> string" where
  "TrimRight s cutset = rev (dropWhile (\<lambda>c. c \<in> set cutset) (rev s))"

fun Index :: "string \<Rightarrow> string \<Rightarrow> nat option" where
  "Index [] sub = (if sub = [] then Some 0 else None)"
| "Index (c # cs) sub =
     (if HasPrefix (c # cs) sub then Some 0
      else (case Index cs sub of None \<Rightarrow> None | Some i \<Rightarrow> Some (Suc i)))"

definition isCTL :: "char \<Rightarrow> bool" where
  "isCTL c = (c < CHR '' '' \<or> c = CHR 0x7F)"

definition ToLower :: "string \<Rightarrow> string" where
  "ToLower s =
     map (\<lambda>c. if between (CHR ''A'') (CHR ''Z'') c then char_of (of_char c + (32::nat)) else c) s"

fun getScheme :: "nat \<Rightarrow> string \<Rightarrow> string \<Rightarrow> (string \<times> string) result" where
  "getScheme i [] rawURL = Ok ([], rawURL)"
| "getScheme i (c # cs) rawURL =
     (if isalpha c then getScheme (Suc i) cs rawURL
      else if isdigit c \<or> c = CHR ''+'' \<or> c = CHR ''-'' \<or> c = CHR ''.'' then
        (if i = 0 then Ok ([], rawURL) else getScheme (Suc i) cs rawURL)
      else if c = CHR '':'' then
        (if i = 0 then Err UrlParseError else Ok (take i rawURL, cs))
      else Ok ([], rawURL))"

definition setPath :: "URL \<Rightarrow> string \<Rightarrow> URL result" where
  "setPath u p =
     (case PathUnescape p of
        Ok path \<Rightarrow> Ok (u\<lparr>Path := path\<rparr>)
      | Err e \<Rightarrow> Err UrlParseError
      | Panic x \<Rightarrow> Panic x)"

definition parse :: "(string \<Rightarrow> bool) \<Rightarrow> string \<Rightarrow> URL result" where
  "parse pa rawURL =
     (if list_ex isCTL rawURL then Err UrlParseError
      else if rawURL = ''*'' then Ok (empty_URL\<lparr>Path := ''*''\<rparr>)
      else
        (case getScheme 0 rawURL rawURL of
           Err e \<Rightarrow> Err e
         | Panic x \<Rightarrow> Panic x
         | Ok (scheme, rest0) \<Rightarrow>
             (case Cut (CHR ''?'') rest0 of (rest, rawquery, _) \<Rightarrow>
                (let u = empty_URL\<lparr>Scheme := ToLower scheme, RawQuery := rawquery\<rparr>
                 in if \<not> HasPrefix rest ''/'' \<and> scheme \<noteq> [] then Ok (u\<lparr>Opaque := rest\<rparr>)
                    else if \<not> HasPrefix rest ''/'' \<and>
                            CHR '':'' \<in> set (fst (Cut (CHR ''/'') rest)) then Err UrlParseError
                    else if (scheme \<noteq> [] \<or> \<not> HasPrefix rest ''///'') \<and> HasPrefix rest ''//'' then
                      (let authority = takeWhile (\<lambda>c. c \<noteq> CHR ''/'') (drop 2 rest);
                           rest' = dropWhile (\<lambda>c. c \<noteq> CHR ''/'') (drop 2 rest)
                       in if pa authority then setPath (u\<lparr>Authority := authority\<rparr>) rest'
                          else Err UrlParseError)
                    else setPath u rest))))"

definition url_Parse :: "(string \<Rightarrow> bool) \<Rightarrow> string \<Rightarrow> URL result" where
  "url_Parse pa rawURL =
     (case Cut (CHR ''#'') rawURL of (u, frag, _) \<Rightarrow>
        (case parse pa u of
           Err e \<Rightarrow> Err e
         | Panic x \<Rightarrow> Panic x
         | Ok url \<Rightarrow>
             if frag = [] then Ok url
             else (case PathUnescape frag of
                     Ok f \<Rightarrow> Ok (url\<lparr>Fragment := f\<rparr>)
                   | Err e \<Rightarrow> Err UrlParseError
                   | Panic x \<Rightarrow> Panic x)))"

text \<open>\<open>URL.Query\<close> parses the raw query and drops the error of \<open>ParseQuery\<close>.\<close>

definition Query :: "URL \<Rightarrow> Values" where
  "Query u = fst (ParseQuery (RawQuery u))"

section \<open>Integers as decimal strings (strconv, fmt)\<close>

text \<open>
  \<open>Atoi\<close> accepts an optional sign and then one or more decimal digits, and refuses a
  value outside the 64-bit range of Go's \<open>int\<close>. \<open>itoa\<close> is the verb \<open>%d\<close> of
  \<open>fmt.Sprintf\<close>.
\<close>

definition digit_val :: "char \<Rightarrow> nat" where
  "digit_val c = of_char c - 48"

definition digits_val :: "string \<Rightarrow> nat" where
  "digits_val ds = foldl (\<lambda>n c. n * 10 + digit_val c) 0 ds"

definition Atoi :: "string \<Rightarrow> int result" where
  "Atoi s =
     (let neg = (s \<noteq> [] \<and> hd s = CHR ''-'');
          ds = (if s \<noteq> [] \<and> (hd s = CHR ''-'' \<or> hd s = CHR ''+'') then tl s else s)
      in if ds = [] \<or> \<not> list_all isdigit ds then Err AtoiSyntax
         else (let n = int (digits_val ds);
                   v = (if neg then - n else n)
               in if v < - (2 ^ 63) \<or> 2 ^ 63 \<le> v then Err AtoiRange else Ok v))"

definition digit_char :: "nat \<Rightarrow> char" where
  "digit_char d = ''0123456789'' ! d"

fun nat_digits :: "nat \<Rightarrow> string" where
  "nat_digits n =
     (if n < 10 then [digit_char n] else nat_digits (n div 10) @ [digit_char (n mod 10)])"

declare nat_digits.simps [simp del]

definition itoa :: "int \<Rightarrow> string" where
  "itoa i = (if i < 0 then CHR ''-'' # nat_digits (nat (- i)) else nat_digits (nat i))"

section \<open>Topic decoding (MQTT transport)\<close>

text \<open>
  \<open>parseCloudToDeviceTopic\<close>: unescape the topic, find the first \<open>$.\<close>, parse the rest
  as a query, and keep the single value of every key. The loop over the Go map returns
  the error as soon as it meets a key whose list does not have exactly one value, so
  the call fails exactly when such a key exists, whatever the order of the walk. The
  error message carries \<open>len(q)\<close>. The result is a Go map, kept as an association list.
\<close>

fun single_values :: "nat \<Rightarrow> Values \<Rightarrow> (string \<times> string) list result" where
  "single_values n [] = Ok []"
| "single_values n ((k, vs) # q) =
     (if length vs \<noteq> 1 then Err (UnexpectedValueCount n)
      else (case single_values n q of
              Ok p \<Rightarrow> Ok ((k, vs ! 0) # p)
            | Err e \<Rightarrow> Err e
            | Panic x \<Rightarrow> Panic x))"

definition parseCloudToDeviceTopic :: "string \<Rightarrow> (string \<times> string) list result" where
  "parseCloudToDeviceTopic s0 =
     (case QueryUnescape s0 of
        Err e \<Rightarrow> Err e
      | Panic x \<Rightarrow> Panic x
      | Ok s \<Rightarrow>
          (case Index s ''$.'' of
             None \<Rightarrow> Err MalformedC2DTopic
           | Some i \<Rightarrow>
               (case ParseQuery (drop i s) of
                  (q, Some e) \<Rightarrow> Err e
                | (q, None) \<Rightarrow> single_values (length q) q)))"

text \<open>
  \<open>parseDirectMethodTopic\<close> returns the method name and the request id of a topic of
  the form \<open>$iothub/methods/POST/{method}/?$rid={rid}\<close>.
\<close>

definition method_prefix :: string where
  "method_prefix = ''$iothub/methods/POST/''"

definition parseDirectMethodTopic :: "(string \<Rightarrow> bool) \<Rightarrow> string \<Rightarrow> (string \<times> int) result" where
  "parseDirectMethodTopic pa s0 =
     (case QueryUnescape s0 of
        Err e \<Rightarrow> Err e
      | Panic x \<Rightarrow> Panic x
      | Ok s \<Rightarrow>
          (case url_Parse pa s of
             Err e \<Rightarrow> Err e
           | Panic x \<Rightarrow> Panic x
           | Ok u \<Rightarrow>
               (let p = TrimRight (Path u) ''/''
                in if \<not> HasPrefix p method_prefix then Err MalformedMethodTopic
                   else (let q = Query u
                         in if length (get_values q ''$rid'') \<noteq> 1 then Err RidNotAvailable
                            else (case Atoi (get_values q ''$rid'' ! 0) of
                                    Err e \<Rightarrow> Err RidParseError
                                  | Panic x \<Rightarrow> Panic x
                                  | Ok rid \<Rightarrow> Ok (drop (length method_prefix) p, rid))))))"

text \<open>
  The request topic as the hub builds it, after the format that the comment above
  \<open>parseDirectMethodTopic\<close> gives: \<open>$iothub/methods/POST/{method}/?$rid={rid}\<close>, the
  method name as it is and the request id in decimal.
\<close>

definition encode_method_topic :: "string \<Rightarrow> int \<Rightarrow> string" where
  "encode_method_topic method rid = ''$iothub/methods/POST/'' @ method @ ''/?$rid='' @ itoa rid"

text \<open>
  The bytes of a method name that pass through \<open>parseDirectMethodTopic\<close> unchanged:
  \<open>%\<close> and \<open>+\<close> are rewritten by the unescaping, \<open>#\<close> and \<open>?\<close> end the path, and a
  control byte makes \<open>url.Parse\<close> fail.
\<close>

definition plain_topic_char :: "char \<Rightarrow> bool" where
  "plain_topic_char c =
     (c \<noteq> CHR ''%'' \<and> c \<noteq> CHR ''+'' \<and> c \<noteq> CHR ''#'' \<and> c \<noteq> CHR ''?'' \<and> \<not> isCTL c)"

text \<open>
  An authority check that accepts every authority, to run \<open>url_Parse\<close> on concrete
  topics; the topics below hold no authority, so that the check is never consulted.
\<close>

definition any_authority :: "string \<Rightarrow> bool" where
  "any_authority a = True"

section \<open>Shared access signatures (credentials/sas.go)\<close>

text \<open>
  \<open>base64.StdEncoding\<close>: the alphabet \<open>A-Z a-z 0-9 + /\<close> with \<open>=\<close> padding. The
  decoder skips carriage returns and line feeds, reads groups of four characters, and
  accepts padding only at the end of the last group.
\<close>

definition b64_alphabet :: string where
  "b64_alphabet = ''ABCDEFGHIJKLMNOPQRSTUVWXYZabcdefghijklmnopqrstuvwxyz0123456789+/''"

definition b64_char :: "nat \<Rightarrow> char" where
  "b64_char n = b64_alphabet ! (n mod 64)"

fun b64_encode :: "string \<Rightarrow> string" where
  "b64_encode [] = []"
| "b64_encode [a] =
     (let x = of_char a
      in [b64_char (x div 4), b64_char ((x mod 4) * 16), CHR ''='', CHR ''=''])"
| "b64_encode [a, b] =
     (let x = of_char a; y = of_char b
      in [b64_char (x div 4), b64_char ((x mod 4) * 16 + y div 16),
          b64_char ((y mod 16) * 4), CHR ''=''])"
| "b64_encode (a # b # c # rest) =
     (let x = of_char a; y = of_char b; z = of_char c
      in [b64_char (x div 4), b64_char ((x mod 4) * 16 + y div 16),
          b64_char ((y mod 16) * 4 + z div 64), b64_char (z mod 64)] @ b64_encode rest)"

definition b64_index :: "char \<Rightarrow> nat option" where
  "b64_index c =
     (if between (CHR ''A'') (CHR ''Z'') c then Some (of_char c - 65)
      else if between (CHR ''a'') (CHR ''z'') c then Some (of_char c - 97 + 26)
      else if between (CHR ''0'') (CHR ''9'') c then Some (of_char c - 48 + 52)
      else if c = CHR ''+'' then Some 62
      else if c = CHR ''/'' then Some 63
      else None)"

fun b64_groups :: "string \<Rightarrow> string result" where
  "b64_groups [] = Ok []"
| "b64_groups (a # b # c # d # rest) =
     (case (b64_index a, b64_index b) of
        (Some x, Some y) \<Rightarrow>
          (if c = CHR ''='' then
             (if d = CHR ''='' \<and> rest = [] then Ok [char_of (x * 4 + y div 16)]
              else Err CorruptInput)
           else
             (case b64_index c of
                None \<Rightarrow> Err CorruptInput
              | Some z \<Rightarrow>
                  (if d = CHR ''='' then
                     (if rest = [] then
                        Ok [char_of (x * 4 + y div 16), char_of ((y mod 16) * 16 + z div 4)]
                      else Err CorruptInput)
                   else
                     (case b64_index d of
                        None \<Rightarrow> Err CorruptInput
                      | Some w \<Rightarrow>
                          (case b64_groups rest of
                             Ok t \<Rightarrow>
                               Ok (char_of (x * 4 + y div 16) #
                                   char_of ((y mod 16) * 16 + z div 4) #
                                   char_of ((z mod 4) * 64 + w) # t)
                           | Err e \<Rightarrow> Err e
                           | Panic p \<Rightarrow> Panic p)))))
      | _ \<Rightarrow> Err CorruptInput)"
| "b64_groups _ = Err CorruptInput"

definition b64_decode :: "string \<Rightarrow> string result" where
  "b64_decode s = b64_groups (filter (\<lambda>c. c \<noteq> CHR 0x0D \<and> c \<noteq> CHR 0x0A) s)"

text \<open>
  \<open>SAS\<close>. The keyed hash \<open>hmac.New(sha256.New, key)\<close> of the standard library is the
  parameter \<open>hmac\<close>, from key and message to the digest. \<open>clock\<close> is the reading of
  \<open>time.Now()\<close>, \<open>duration\<close> is in nanoseconds, and \<open>Unix()\<close> is the number of whole
  seconds since the epoch.
\<close>

definition Unix :: "time \<Rightarrow> int" where
  "Unix t = t div 1000000000"

definition SAS :: "(string \<Rightarrow> string \<Rightarrow> string) \<Rightarrow> Credentials \<Rightarrow> time \<Rightarrow> int \<Rightarrow> string result" where
  "SAS hmac c clock duration =
     (if HostName c = [] then Err HostNameBlank
      else if SharedAccessKey c = [] then Err SharedAccessKeyBlank
      else
        (let sr = QueryEscape (HostName c);
             ts = (if now c \<noteq> zero_time then now c else clock);
             se = Unix (ts + duration)
         in case b64_decode (SharedAccessKey c) of
              Err e \<Rightarrow> Err e
            | Panic p \<Rightarrow> Panic p
            | Ok b \<Rightarrow>
                (let e = sr @ [CHR 0x0A] @ itoa se
                 in Ok (''SharedAccessSignature sr='' @ sr @
                        ''&sig='' @ QueryEscape (b64_encode (hmac b e)) @
                        ''&se='' @ QueryEscape (itoa se) @
                        ''&skn='' @ QueryEscape (SharedAccessKeyName c)))))"

section \<open>The MQTT client\<close>

text \<open>
  The client of the MQTT library, as far as the transport can observe it: the options
  it was built with, the subscriptions and publications it was asked for, in order,
  and whether it is connected. Each of its operations returns a token. What a token
  completes with is up to the library and the network, and \<open>contextToken\<close> waits for
  the token or for the caller's context, whichever comes first; that outcome is the
  argument \<open>token_wait\<close> of every operation below that waits.

  The transport only ever holds the client that \<open>mqtt.NewClient\<close> builds, and that
  client refuses a publication while it is not connected: the token of \<open>Publish\<close> is
  then complete at once, with the error \<open>ErrNotConnected\<close>. \<open>publish_wait\<close> is the
  wait for the token of a publication on the client \<open>c\<close>: the network decides what
  the token completes with only when \<open>c\<close> is connected. The context can still end the
  wait first. The tokens of subscriptions are left to the argument as it is.
\<close>

record mqtt_client =
  broker :: string
  client_id :: string
  username :: string
  password :: string
  auto_reconnect :: bool
  subscriptions :: "(string \<times> int) list"
  published :: "(string \<times> int \<times> bool \<times> string) list"
  connected :: bool

definition Subscribe :: "mqtt_client \<Rightarrow> string \<Rightarrow> int \<Rightarrow> mqtt_client" where
  "Subscribe c topic_filter qos = c\<lparr>subscriptions := subscriptions c @ [(topic_filter, qos)]\<rparr>"

definition Publish :: "mqtt_client \<Rightarrow> string \<Rightarrow> int \<Rightarrow> bool \<Rightarrow> string \<Rightarrow> mqtt_client" where
  "Publish c topic qos retained payload =
     c\<lparr>published := published c @ [(topic, qos, retained, payload)]\<rparr>"

definition Disconnect :: "mqtt_client \<Rightarrow> mqtt_client" where
  "Disconnect c = c\<lparr>connected := False\<rparr>"

datatype token_wait = TokenDone "error option" | ContextDone error

definition contextToken :: "token_wait \<Rightarrow> unit result" where
  "contextToken w =
     (case w of
        TokenDone None \<Rightarrow> Ok ()
      | TokenDone (Some e) \<Rightarrow> Err e
      | ContextDone e \<Rightarrow> Err e)"

definition publish_wait :: "mqtt_client \<Rightarrow> token_wait \<Rightarrow> token_wait" where
  "publish_wait c w =
     (case w of
        TokenDone r \<Rightarrow> TokenDone (if connected c then r else Some ClientNotConnected)
      | ContextDone e \<Rightarrow> ContextDone e)"

section \<open>The transport\<close>

text \<open>
  The struct \<open>Transport\<close>. The connection handle is absent (nil) until \<open>Connect\<close>
  succeeds; \<open>done\<close> is a channel that is only ever closed, kept as the flag
  \<open>done_closed\<close>; \<open>resp\<close> is nil until the subscription to twin responses is in
  place, and then maps request ids to channels of capacity one. The lock and the
  logger have no effect on the results and are left out.
\<close>

record resp =
  code :: int
  body :: string
  ver :: int

datatype chan = Empty | Full resp

record Transport =
  conn :: "mqtt_client option"
  did :: string
  rid :: "32 word"
  done_closed :: bool
  resp :: "(32 word \<rightharpoonup> chan) option"

definition defaultQoS :: int where
  "defaultQoS = 1"

definition New :: Transport where
  "New = \<lparr>conn = None, did = [], rid = 0, done_closed = False, resp = None\<rparr>"

text \<open>
  The interface \<open>transport.Credentials\<close> as \<open>Connect\<close> uses it; \<open>cred_Token\<close> is what
  the call of \<open>Token\<close> returns. \<open>api_version\<close> stands for \<open>common.APIVersion\<close>.
\<close>

record device_credentials =
  cred_Hostname :: string
  cred_DeviceID :: string
  cred_IsSAS :: bool
  cred_Token :: "string result"

definition Connect ::
  "string \<Rightarrow> Transport \<Rightarrow> device_credentials \<Rightarrow> token_wait \<Rightarrow> unit result \<times> Transport" where
  "Connect api_version tr creds w =
     (if conn tr \<noteq> None then (Err AlreadyConnected, tr)
      else
        (case (if cred_IsSAS creds then cred_Token creds else Ok []) of
           Err e \<Rightarrow> (Err e, tr)
         | Panic p \<Rightarrow> (Panic p, tr)
         | Ok pwd \<Rightarrow>
             (let c = \<lparr>broker = ''tls://'' @ cred_Hostname creds @ '':8883'',
                       client_id = cred_DeviceID creds,
                       username = cred_Hostname creds @ ''/'' @ cred_DeviceID creds @
                                  ''/api-version='' @ api_version,
                       password = pwd,
                       auto_reconnect = True,
                       subscriptions = [],
                       published = [],
                       connected = False\<rparr>
              in case contextToken w of
                   Err e \<Rightarrow> (Err e, tr)
                 | Panic p \<Rightarrow> (Panic p, tr)
                 | Ok _ \<Rightarrow>
                     (Ok (), tr\<lparr>did := cred_DeviceID creds,
                                conn := Some (c\<lparr>connected := True\<rparr>)\<rparr>))))"

text \<open>
  The three subscriptions call \<open>tr.conn.Subscribe\<close> without looking at the handle:
  on a nil handle the call panics before any token exists.
\<close>

definition subscribe_on ::
  "Transport \<Rightarrow> string \<Rightarrow> token_wait \<Rightarrow> unit result \<times> Transport" where
  "subscribe_on tr topic_filter w =
     (case conn tr of
        None \<Rightarrow> (Panic NilDereference, tr)
      | Some c \<Rightarrow> (contextToken w, tr\<lparr>conn := Some (Subscribe c topic_filter defaultQoS)\<rparr>))"

definition SubscribeEvents :: "Transport \<Rightarrow> token_wait \<Rightarrow> unit result \<times> Transport" where
  "SubscribeEvents tr w = subscribe_on tr (''devices/'' @ did tr @ ''/messages/devicebound/#'') w"

definition SubscribeTwinUpdates :: "Transport \<Rightarrow> token_wait \<Rightarrow> unit result \<times> Transport" where
  "SubscribeTwinUpdates tr w = subscribe_on tr ''$iothub/twin/PATCH/properties/desired/#'' w"

definition RegisterDirectMethods :: "Transport \<Rightarrow> token_wait \<Rightarrow> unit result \<times> Transport" where
  "RegisterDirectMethods tr w = subscribe_on tr ''$iothub/methods/POST/#'' w"

text \<open>
  \<open>send\<close> is the one place that looks at the handle. It takes a quality of service
  and publishes at \<open>defaultQoS\<close>.
\<close>

definition send ::
  "Transport \<Rightarrow> token_wait \<Rightarrow> string \<Rightarrow> int \<Rightarrow> string \<Rightarrow> unit result \<times> Transport" where
  "send tr w topic qos b =
     (case conn tr of
        None \<Rightarrow> (Err NotConnected, tr)
      | Some c \<Rightarrow>
          (contextToken (publish_wait c w),
           tr\<lparr>conn := Some (Publish c topic defaultQoS False b)\<rparr>))"

text \<open>
  \<open>Close\<close> closes \<open>done\<close> once, disconnects a connected client, and leaves the handle
  in place.
\<close>

definition Close :: "Transport \<Rightarrow> unit result \<times> Transport" where
  "Close tr =
     (if done_closed tr then (Ok (), tr)
      else
        (let tr1 = tr\<lparr>done_closed := True\<rparr>
         in case conn tr1 of
              None \<Rightarrow> (Ok (), tr1)
            | Some c \<Rightarrow>
                if connected c then (Ok (), tr1\<lparr>conn := Some (Disconnect c)\<rparr>)
                else (Ok (), tr1)))"

text \<open>
  The states in which the transport holds a client that is not connected. \<open>Connect\<close>
  is the only operation that builds a connected client, and it refuses to run while a
  handle is present.
\<close>

definition client_refuses :: "Transport \<Rightarrow> bool" where
  "client_refuses tr = (case conn tr of None \<Rightarrow> False | Some c \<Rightarrow> \<not> connected c)"

section \<open>Telemetry\<close>

text \<open>
  \<open>common.Message\<close> with the fields \<open>Send\<close> reads. \<open>ExpiryTime\<close> is a pointer,
  \<open>Properties\<close> and \<open>TransportOptions\<close> are Go maps, kept as association lists whose
  keys are distinct; the values of \<open>TransportOptions\<close> are of any type. The layout of
  \<open>Format(time.RFC3339)\<close> in UTC is the parameter \<open>rfc3339\<close>.
\<close>

datatype iface = IntVal int | StrVal string | BoolVal bool

record Message =
  Payload :: string
  MessageID :: string
  CorrelationID :: string
  UserID :: string
  To :: string
  ExpiryTime :: "time option"
  Properties :: "(string \<times> string) list"
  TransportOptions :: "(string \<times> iface) list"

definition system_values :: "(time \<Rightarrow> string) \<Rightarrow> Message \<Rightarrow> Values" where
  "system_values rfc3339 msg =
     (let u0 = [];
          u1 = (if MessageID msg \<noteq> [] then set_value ''$.mid'' (MessageID msg) u0 else u0);
          u2 = (if CorrelationID msg \<noteq> [] then set_value ''$.cid'' (CorrelationID msg) u1 else u1);
          u3 = (if UserID msg \<noteq> [] then set_value ''$.uid'' (UserID msg) u2 else u2);
          u4 = (if To msg \<noteq> [] then set_value ''$.to'' (To msg) u3 else u3)
      in case ExpiryTime msg of
           None \<Rightarrow> u4
         | Some t \<Rightarrow> if t \<noteq> zero_time then set_value ''$.exp'' (rfc3339 t) u4 else u4)"

definition Send_values :: "(time \<Rightarrow> string) \<Rightarrow> Message \<Rightarrow> Values" where
  "Send_values rfc3339 msg =
     fold (\<lambda>(k, v) u. set_value k v u) (Properties msg) (system_values rfc3339 msg)"

definition Send_topic :: "(time \<Rightarrow> string) \<Rightarrow> Transport \<Rightarrow> Message \<Rightarrow> string" where
  "Send_topic rfc3339 tr msg =
     ''devices/'' @ did tr @ ''/messages/events/'' @ Encode (Send_values rfc3339 msg)"

definition Send ::
  "(time \<Rightarrow> string) \<Rightarrow> Transport \<Rightarrow> token_wait \<Rightarrow> Message \<Rightarrow> unit result \<times> Transport" where
  "Send rfc3339 tr w msg =
     (let dst = Send_topic rfc3339 tr msg
      in case map_of (TransportOptions msg) ''qos'' of
           None \<Rightarrow> send tr w dst defaultQoS (Payload msg)
         | Some (IntVal q) \<Rightarrow> send tr w dst q (Payload msg)
         | Some _ \<Rightarrow> (Panic TypeAssertionFailed, tr))"

section \<open>Twin requests\<close>

text \<open>
  \<open>parseTwinPropsTopic\<close> reads status code, request id and version from a topic of the
  form \<open>$iothub/twin/res/{rc}/?$rid={rid}\<close>, optionally with \<open>&$version={ver}\<close>.
\<close>

definition Trim :: "string \<Rightarrow> string \<Rightarrow> string" where
  "Trim s cutset = dropWhile (\<lambda>c. c \<in> set cutset) (TrimRight s cutset)"

definition twin_prefix :: string where
  "twin_prefix = ''$iothub/twin/res/''"

definition parseTwinPropsTopic ::
  "(string \<Rightarrow> bool) \<Rightarrow> string \<Rightarrow> (int \<times> int \<times> int) result" where
  "parseTwinPropsTopic pa s =
     (case url_Parse pa s of
        Err e \<Rightarrow> Err e
      | Panic x \<Rightarrow> Panic x
      | Ok u \<Rightarrow>
          (let p = Trim (Path u) ''/''
           in if \<not> HasPrefix p twin_prefix then Err MalformedTwinTopic
              else
                (case Atoi (drop (length twin_prefix) p) of
                   Err e \<Rightarrow> Err e
                 | Panic x \<Rightarrow> Panic x
                 | Ok rc \<Rightarrow>
                     (let q = Query u
                      in if length (get_values q ''$rid'') \<noteq> 1 then Err RidNotAvailable
                         else
                           (case Atoi (get_values q ''$rid'' ! 0) of
                              Err e \<Rightarrow> Err RidParseError
                            | Panic x \<Rightarrow> Panic x
                            | Ok r \<Rightarrow>
                                if length (get_values q ''$version'') = 1 then
                                  (case Atoi (get_values q ''$version'' ! 0) of
                                     Err e \<Rightarrow> Err e
                                   | Panic x \<Rightarrow> Panic x
                                   | Ok v \<Rightarrow> Ok (rc, r, v))
                                else Ok (rc, r, 0))))))"

text \<open>
  The handler of the subscription to \<open>$iothub/twin/res/#\<close>. A topic that does not
  parse is reported and dropped. Otherwise the handler walks the registry for the
  key \<open>r\<close> with \<open>int(r) = rid\<close>, of which there is at most one, and sends the response
  into its channel without blocking; a full channel is a panic, and an unknown id is
  logged.
\<close>

definition twin_response_handler ::
  "(string \<Rightarrow> bool) \<Rightarrow> Transport \<Rightarrow> string \<Rightarrow> string \<Rightarrow> Transport result" where
  "twin_response_handler pa tr topic payload =
     (case parseTwinPropsTopic pa topic of
        Err e \<Rightarrow> Ok tr
      | Panic x \<Rightarrow> Panic x
      | Ok (rc, r, v) \<Rightarrow>
          (case resp tr of
             None \<Rightarrow> Ok tr
           | Some m \<Rightarrow>
               if 0 \<le> r \<and> r < 2 ^ 32 then
                 (case m (word_of_int r) of
                    None \<Rightarrow> Ok tr
                  | Some Empty \<Rightarrow>
                      Ok (tr\<lparr>resp := Some (m(word_of_int r \<mapsto>
                                    Full \<lparr>code = rc, body = payload, ver = v\<rparr>))\<rparr>)
                  | Some (Full _) \<Rightarrow> Panic ResponseSendingBlocked)
               else Ok tr))"

fun deliver :: "(string \<Rightarrow> bool) \<Rightarrow> Transport \<Rightarrow> (string \<times> string) list \<Rightarrow> Transport result" where
  "deliver pa tr [] = Ok tr"
| "deliver pa tr ((topic, payload) # ms) =
     (case twin_response_handler pa tr topic payload of
        Ok tr' \<Rightarrow> deliver pa tr' ms
      | Err e \<Rightarrow> Err e
      | Panic x \<Rightarrow> Panic x)"

definition enableTwinResponses :: "Transport \<Rightarrow> token_wait \<Rightarrow> unit result \<times> Transport" where
  "enableTwinResponses tr w =
     (if resp tr \<noteq> None then (Ok (), tr)
      else
        (case conn tr of
           None \<Rightarrow> (Panic NilDereference, tr)
         | Some c \<Rightarrow>
             (let tr1 = tr\<lparr>conn := Some (Subscribe c ''$iothub/twin/res/#'' defaultQoS)\<rparr>
              in case contextToken w of
                   Err e \<Rightarrow> (Err e, tr1)
                 | Panic x \<Rightarrow> (Panic x, tr1)
                 | Ok _ \<Rightarrow> (Ok (), tr1\<lparr>resp := Some Map.empty\<rparr>))))"

text \<open>
  The \<open>select\<close> of \<open>request\<close> takes the branch that is ready first: the reply in the
  channel of the request, the timer of thirty seconds, or the caller's context. Which
  one that is, is the argument \<open>select_case\<close>; the branch of the reply can only be
  taken when the channel holds one, and when it holds none the timer is what fires.
\<close>

datatype select_case = Reply | After30s | CtxDone error

definition select_reply :: "Transport \<Rightarrow> 32 word \<Rightarrow> select_case \<Rightarrow> resp result" where
  "select_reply tr r sel =
     (case sel of
        CtxDone e \<Rightarrow> Err e
      | After30s \<Rightarrow> Err RequestTimedOut
      | Reply \<Rightarrow>
          (case resp tr of
             None \<Rightarrow> Err RequestTimedOut
           | Some m \<Rightarrow>
               (case m r of
                  Some (Full x) \<Rightarrow>
                    if code x < 200 \<and> code x > 299 then Err (RequestFailed (code x))
                    else Ok x
                | _ \<Rightarrow> Err RequestTimedOut)))"

text \<open>The deferred \<open>delete(tr.resp, rid)\<close>; deleting from a nil map does nothing.\<close>

definition release :: "32 word \<Rightarrow> Transport \<Rightarrow> Transport" where
  "release r tr =
     (case resp tr of
        None \<Rightarrow> tr
      | Some m \<Rightarrow> tr\<lparr>resp := Some (m(r := None))\<rparr>)"

text \<open>
  \<open>request\<close>. \<open>topic\<close> is the format string up to its final \<open>%d\<close>, where the request
  id goes. \<open>w_sub\<close> and \<open>w_pub\<close> are the outcomes of the two waits for tokens,
  \<open>inbound\<close> the twin responses that the handler receives between the publication
  and the \<open>select\<close>, as pairs of topic and payload, and \<open>sel\<close> the branch the \<open>select\<close>
  takes. The deferred deletion runs on every return after the registration.
\<close>

definition request ::
  "(string \<Rightarrow> bool) \<Rightarrow> Transport \<Rightarrow> token_wait \<Rightarrow> token_wait \<Rightarrow> (string \<times> string) list \<Rightarrow>
   select_case \<Rightarrow> string \<Rightarrow> string \<Rightarrow> resp result \<times> Transport" where
  "request pa tr w_sub w_pub inbound sel topic b =
     (case enableTwinResponses tr w_sub of
        (Err e, tr1) \<Rightarrow> (Err e, tr1)
      | (Panic x, tr1) \<Rightarrow> (Panic x, tr1)
      | (Ok _, tr1) \<Rightarrow>
          (let r = rid tr1 + 1;
               tr2 = tr1\<lparr>rid := r\<rparr>;
               dst = topic @ itoa (uint r)
           in case resp tr2 of
                None \<Rightarrow> (Panic NilMapAssignment, tr2)
              | Some m \<Rightarrow>
                  (let tr3 = tr2\<lparr>resp := Some (m(r \<mapsto> Empty))\<rparr>
                   in case send tr3 w_pub dst defaultQoS b of
                        (Err e, tr4) \<Rightarrow> (Err e, release r tr4)
                      | (Panic x, tr4) \<Rightarrow> (Panic x, tr4)
                      | (Ok _, tr4) \<Rightarrow>
                          (case deliver pa tr4 inbound of
                             Err e \<Rightarrow> (Err e, release r tr4)
                           | Panic x \<Rightarrow> (Panic x, tr4)
                           | Ok tr5 \<Rightarrow> (select_reply tr5 r sel, release r tr5)))))"

definition RetrieveTwinProperties ::
  "(string \<Rightarrow> bool) \<Rightarrow> Transport \<Rightarrow> token_wait \<Rightarrow> token_wait \<Rightarrow> (string \<times> string) list \<Rightarrow>
   select_case \<Rightarrow> string result \<times> Transport" where
  "RetrieveTwinProperties pa tr w_sub w_pub inbound sel =
     (case request pa tr w_sub w_pub inbound sel ''$iothub/twin/GET/?$rid='' [] of
        (Ok r, tr') \<Rightarrow> (Ok (body r), tr')
      | (Err e, tr') \<Rightarrow> (Err e, tr')
      | (Panic x, tr') \<Rightarrow> (Panic x, tr'))"

definition UpdateTwinProperties ::
  "(string \<Rightarrow> bool) \<Rightarrow> Transport \<Rightarrow> token_wait \<Rightarrow> token_wait \<Rightarrow> (string \<times> string) list \<Rightarrow>
   select_case \<Rightarrow> string \<Rightarrow> int result \<times> Transport" where
  "UpdateTwinProperties pa tr w_sub w_pub inbound sel b =
     (case request pa tr w_sub w_pub inbound sel
             ''$iothub/twin/PATCH/properties/reported/?$rid='' b of
        (Ok r, tr') \<Rightarrow> (Ok (ver r), tr')
      | (Err e, tr') \<Rightarrow> (Err e, tr')
      | (Panic x, tr') \<Rightarrow> (Panic x, tr'))"

section \<open>A device and its messages\<close>

text \<open>
  The values the scenarios below run on: a device with SAS credentials, the client
  and the transport that a successful \<open>Connect\<close> of a new transport builds for it, a
  telemetry message without properties, and a rendering of expiry times for messages
  that carry none.
\<close>

definition device1 :: device_credentials where
  "device1 = \<lparr>cred_Hostname = ''h.example'', cred_DeviceID = ''d1'', cred_IsSAS = True,
               cred_Token = Ok ''token''\<rparr>"

definition client1 :: mqtt_client where
  "client1 = \<lparr>broker = ''tls://h.example:8883'', client_id = ''d1'',
               username = ''h.example/d1/api-version=2018-06-30'', password = ''token'',
               auto_reconnect = True, subscriptions = [], published = [], connected = True\<rparr>"

definition connected_transport :: Transport where
  "connected_transport = snd (Connect ''2018-06-30'' New device1 (TokenDone None))"

definition hello :: Message where
  "hello = \<lparr>Payload = ''hello'', MessageID = [], CorrelationID = [], UserID = [], To = [],
             ExpiryTime = None, Properties = [], TransportOptions = []\<rparr>"

definition no_expiry_layout :: "time \<Rightarrow> string" where
  "no_expiry_layout t = []"

section \<open>Connection strings\<close>

lemma SplitN2_nonempty: "SplitN2 sep s \<noteq> []"
  by (simp add: SplitN2_def split: prod.splits)

text \<open>
  C9. There is a connection string of three chunks on which \<open>ParseConnectionString\<close>
  returns neither a Credentials value nor an error: the chunk \<open>HostName\<close> names a
  recognised key and holds no \<open>=\<close>, the split has one element, and reading its
  second element panics.
\<close>

theorem ParseConnectionString_panics:
  "length (Split (CHR '';'') ''HostName;DeviceId=d;SharedAccessKey=k'') = 3 \<and>
   ParseConnectionString ''HostName;DeviceId=d;SharedAccessKey=k'' = Panic IndexOutOfRange"
  by (simp add: ParseConnectionString_def parse_chunk_def SplitN2_def index1_def)

section \<open>Decimal strings\<close>

lemma isdigit_iff: "isdigit c \<longleftrightarrow> 48 \<le> (of_char c :: nat) \<and> (of_char c :: nat) \<le> 57"
  by (simp add: isdigit_def less_eq_char_def)

lemma below_ten:
  "d < 10 \<Longrightarrow> d = 0 \<or> d = 1 \<or> d = 2 \<or> d = 3 \<or> d = 4 \<or> d = 5 \<or> d = 6 \<or> d = 7 \<or> d = 8 \<or> d = (9::nat)"
  by arith

lemma isdigit_digit_char: "d < 10 \<Longrightarrow> isdigit (digit_char d)"
  by (drule below_ten) (auto simp add: isdigit_def digit_char_def)

lemma digit_val_digit_char: "d < 10 \<Longrightarrow> digit_val (digit_char d) = d"
  by (drule below_ten) (auto simp add: digit_val_def digit_char_def)

lemma nat_digits_nonempty: "nat_digits n \<noteq> []"
  by (subst nat_digits.simps) simp

lemma nat_digits_isdigit: "list_all isdigit (nat_digits n)"
proof (induction n rule: nat_digits.induct)
  case (1 n)
  show ?case
  proof (cases "n < 10")
    case True
    then show ?thesis by (subst nat_digits.simps) (simp add: isdigit_digit_char)
  next
    case False
    then show ?thesis using 1 by (subst nat_digits.simps) (simp add: isdigit_digit_char)
  qed
qed

lemma digits_val_snoc: "digits_val (ds @ [c]) = digits_val ds * 10 + digit_val c"
  by (simp add: digits_val_def)

lemma digits_val_nat_digits: "digits_val (nat_digits n) = n"
proof (induction n rule: nat_digits.induct)
  case (1 n)
  show ?case
  proof (cases "n < 10")
    case True
    then show ?thesis by (subst nat_digits.simps) (simp add: digits_val_def digit_val_digit_char)
  next
    case False
    then show ?thesis using 1
      by (subst nat_digits.simps) (simp add: digits_val_snoc digit_val_digit_char)
  qed
qed

lemma isdigit_not_sign: "isdigit c \<Longrightarrow> c \<noteq> CHR ''-'' \<and> c \<noteq> CHR ''+''"
  by (auto simp add: isdigit_iff)

lemma hd_nat_digits_isdigit: "isdigit (hd (nat_digits n))"
  using nat_digits_isdigit [of n] nat_digits_nonempty [of n]
  by (cases "nat_digits n") simp_all

lemma Atoi_itoa:
  assumes "- (2 ^ 63) \<le> i" "i < 2 ^ 63"
  shows "Atoi (itoa i) = Ok i"
proof (cases "i < 0")
  case True
  then show ?thesis using assms
    by (simp add: Atoi_def itoa_def nat_digits_nonempty nat_digits_isdigit digits_val_nat_digits Let_def)
next
  case False
  have "hd (nat_digits (nat i)) \<noteq> CHR ''-''" "hd (nat_digits (nat i)) \<noteq> CHR ''+''"
    using hd_nat_digits_isdigit [of "nat i"] isdigit_not_sign by blast+
  then show ?thesis using False assms
    by (simp add: Atoi_def itoa_def nat_digits_nonempty nat_digits_isdigit digits_val_nat_digits Let_def)
qed


section \<open>Direct-method topics\<close>

lemma unescape_plain:
  "CHR ''%'' \<notin> set s \<Longrightarrow> (sp \<Longrightarrow> CHR ''+'' \<notin> set s) \<Longrightarrow> unescape sp s = Ok s"
  by (induction s) auto

lemma Cut_notin: "sep \<notin> set s \<Longrightarrow> Cut sep s = (s, [], False)"
  by (induction s) auto

lemma Cut_append: "sep \<notin> set a \<Longrightarrow> Cut sep (a @ sep # b) = (a, b, True)"
  by (induction a) auto

lemma Split_notin: "sep \<notin> set s \<Longrightarrow> Split sep s = [s]"
  by (induction s) auto

lemma TrimRight_slash:
  assumes "a \<noteq> []" "last a \<noteq> CHR ''/''"
  shows "TrimRight (a @ ''/'') ''/'' = a"
proof -
  from assms obtain b x where a: "a = b @ [x]" "x \<noteq> CHR ''/''"
    by (metis append_butlast_last_id)
  show ?thesis by (simp add: TrimRight_def a)
qed

lemma itoa_chars: "c \<in> set (itoa i) \<Longrightarrow> isdigit c \<or> c = CHR ''-''"
  using nat_digits_isdigit [of "nat i"] nat_digits_isdigit [of "nat (- i)"]
  by (auto simp add: itoa_def list_all_iff split: if_splits)

lemma itoa_plain:
  "CHR ''%'' \<notin> set (itoa i)" "CHR ''+'' \<notin> set (itoa i)" "CHR ''#'' \<notin> set (itoa i)"
  "CHR ''?'' \<notin> set (itoa i)" "CHR ''&'' \<notin> set (itoa i)" "CHR '';'' \<notin> set (itoa i)"
  "CHR ''='' \<notin> set (itoa i)"
  by (auto dest!: itoa_chars simp add: isdigit_def)

lemma itoa_not_CTL: "c \<in> set (itoa i) \<Longrightarrow> \<not> isCTL c"
  using itoa_chars [of c i] by (auto simp add: isdigit_iff isCTL_def less_char_def)

lemma itoa_nonempty: "itoa i \<noteq> []"
  by (simp add: itoa_def nat_digits_nonempty)

lemma Query_rid:
  "ParseQuery (''$rid='' @ itoa i) = ([(''$rid'', [itoa i])], None)"
proof -
  have amp: "CHR ''&'' \<notin> set (''$rid='' @ itoa i)" and semi: "CHR '';'' \<notin> set (''$rid='' @ itoa i)"
    using itoa_plain [of i] by simp_all
  have key: "QueryUnescape ''$rid'' = Ok ''$rid''"
    by (simp add: QueryUnescape_def)
  have val: "QueryUnescape (itoa i) = Ok (itoa i)"
    unfolding QueryUnescape_def using itoa_plain [of i] by (intro unescape_plain)
  have cut: "Cut (CHR ''='') (''$rid='' @ itoa i) = (''$rid'', itoa i, True)"
    by simp
  show ?thesis
    unfolding ParseQuery_def Split_notin [OF amp]
    using semi by (simp add: cut key val del: append.simps)
qed

lemma parse_method_topic:
  assumes "list_all plain_topic_char m"
  shows "url_Parse pa (method_prefix @ m @ ''/?$rid='' @ itoa i) =
           Ok (empty_URL\<lparr>Path := method_prefix @ m @ ''/'', RawQuery := ''$rid='' @ itoa i\<rparr>)"
proof -
  let ?t = "method_prefix @ m @ ''/?$rid='' @ itoa i"
  let ?rest = "method_prefix @ m @ ''/''"
  have m: "CHR ''%'' \<notin> set m" "CHR ''#'' \<notin> set m" "CHR ''?'' \<notin> set m" "\<And>c. c \<in> set m \<Longrightarrow> \<not> isCTL c"
    using assms by (auto simp add: list_all_iff plain_topic_char_def)
  have hash: "CHR ''#'' \<notin> set ?t"
    using m itoa_plain [of i] by (simp add: method_prefix_def)
  have ctl: "\<not> list_ex isCTL ?t"
    using m(4) itoa_not_CTL [of _ i]
    by (auto simp add: list_ex_iff method_prefix_def isCTL_def)
  have star: "?t \<noteq> ''*''" by (simp add: method_prefix_def)
  have scheme: "getScheme 0 ?t ?t = Ok ([], ?t)"
    by (simp add: method_prefix_def isalpha_def isdigit_def)
  have "?t = ?rest @ CHR ''?'' # (''$rid='' @ itoa i)" by simp
  moreover have "CHR ''?'' \<notin> set ?rest" using m by (simp add: method_prefix_def)
  ultimately have cut: "Cut (CHR ''?'') ?t = (?rest, ''$rid='' @ itoa i, True)"
    using Cut_append by metis
  have noslash: "\<not> HasPrefix ?rest ''/''" "\<not> HasPrefix ?rest ''//''"
    by (simp_all add: HasPrefix_def method_prefix_def)
  have seg: "CHR '':'' \<notin> set (fst (Cut (CHR ''/'') ?rest))"
    by (simp add: method_prefix_def)
  have path: "PathUnescape ?rest = Ok ?rest"
    unfolding PathUnescape_def using m by (intro unescape_plain) (simp_all add: method_prefix_def)
  have "parse pa ?t = Ok (empty_URL\<lparr>Path := ?rest, RawQuery := ''$rid='' @ itoa i\<rparr>)"
    unfolding parse_def using ctl star noslash seg
    by (simp add: scheme cut setPath_def path ToLower_def empty_URL_def del: append.simps append_assoc)
  then show ?thesis
    unfolding url_Parse_def Cut_notin [OF hash] by simp
qed

text \<open>
  C7, as the code has it. For every method name that is not empty, does not end in a
  slash and holds none of the bytes \<open>% + # ?\<close> nor a control byte, and for every
  request id in the range of Go's 64-bit \<open>int\<close>, decoding the topic
  \<open>$iothub/methods/POST/{method}/?$rid={i}\<close> gives back the pair of method and id,
  whatever the library's check of authorities does.
\<close>

theorem method_topic_roundtrip:
  assumes "method \<noteq> []" and "last method \<noteq> CHR ''/''" and "list_all plain_topic_char method"
    and "- (2 ^ 63) \<le> i" and "i < 2 ^ 63"
  shows "parseDirectMethodTopic pa (encode_method_topic method i) = Ok (method, i)"
proof -
  let ?t = "method_prefix @ method @ ''/?$rid='' @ itoa i"
  have m: "CHR ''%'' \<notin> set method" "CHR ''+'' \<notin> set method"
    using assms(3) by (auto simp add: list_all_iff plain_topic_char_def)
  have enc: "encode_method_topic method i = ?t"
    by (simp add: encode_method_topic_def method_prefix_def)
  have un: "QueryUnescape ?t = Ok ?t"
    unfolding QueryUnescape_def using m itoa_plain [of i]
    by (intro unescape_plain) (simp_all add: method_prefix_def)
  have trim: "TrimRight (method_prefix @ method @ ''/'') ''/'' = method_prefix @ method"
    using TrimRight_slash [of "method_prefix @ method"] assms(1,2) by simp
  show ?thesis
    unfolding enc parseDirectMethodTopic_def
    by (simp add: un parse_method_topic [OF assms(3)] trim HasPrefix_def Query_def Query_rid
        get_values_def Atoi_itoa [OF assms(4,5)] del: append.simps append_assoc)
qed

theorem method_topic_roundtrip_witness:
  "''sum'' \<noteq> [] \<and> last ''sum'' \<noteq> CHR ''/'' \<and> list_all plain_topic_char ''sum'' \<and>
   - (2 ^ 63) \<le> (7::int) \<and> (7::int) < 2 ^ 63 \<and>
   parseDirectMethodTopic any_authority (encode_method_topic ''sum'' 7) = Ok (''sum'', 7)"
  using method_topic_roundtrip [of "''sum''" 7 any_authority]
  by (simp add: plain_topic_char_def isCTL_def)

text \<open>
  The round trip does not hold for every method name: a \<open>+\<close> in the name comes back
  as a space.
\<close>

theorem method_topic_roundtrip_counterexample:
  "parseDirectMethodTopic any_authority (encode_method_topic ''a+b'' 7) = Ok (''a b'', 7) \<and>
   parseDirectMethodTopic any_authority (encode_method_topic ''a+b'' 7) \<noteq> Ok (''a+b'', 7)"
  by code_simp

section \<open>Cloud-to-device topics\<close>

lemma HasPrefix_iff: "HasPrefix s pre \<longleftrightarrow> (\<exists>b. s = pre @ b)"
  unfolding HasPrefix_def
  by (metis append_eq_conv_conj append_take_drop_id)

lemma Index_None_iff: "Index s sub = None \<longleftrightarrow> \<not> (\<exists>a b. s = a @ sub @ b)"
proof (induction s)
  case Nil
  then show ?case by auto
next
  case (Cons c cs)
  show ?case
  proof (cases "HasPrefix (c # cs) sub")
    case True
    then obtain b where "c # cs = [] @ sub @ b" by (auto simp add: HasPrefix_iff)
    then show ?thesis using True by (metis Index.simps(2) option.distinct(1))
  next
    case False
    have "(\<exists>a b. c # cs = a @ sub @ b) \<longleftrightarrow> (\<exists>a b. cs = a @ sub @ b)"
    proof
      assume "\<exists>a b. c # cs = a @ sub @ b"
      then obtain a b where ab: "c # cs = a @ sub @ b" by blast
      with False have "a \<noteq> []" by (auto simp add: HasPrefix_iff)
      then obtain a' where "a = c # a'" using ab by (cases a) auto
      with ab show "\<exists>a b. cs = a @ sub @ b" by auto
    next
      assume "\<exists>a b. cs = a @ sub @ b"
      then obtain a b where "cs = a @ sub @ b" by blast
      then have "c # cs = (c # a) @ sub @ b" by simp
      then show "\<exists>a b. c # cs = a @ sub @ b" by blast
    qed
    moreover have "Index (c # cs) sub = None \<longleftrightarrow> Index cs sub = None"
      using False by (simp split: option.splits)
    ultimately show ?thesis using Cons.IH by simp
  qed
qed

lemma add_value_keys: "set (map fst (add_value k v m)) = insert k (set (map fst m))"
proof (induction m)
  case Nil
  then show ?case by simp
next
  case (Cons kv m)
  obtain k' vs where kv: "kv = (k', vs)" by (cases kv)
  show ?case
  proof (cases "k = k'")
    case True
    then show ?thesis using kv by auto
  next
    case False
    then show ?thesis using kv Cons by auto
  qed
qed

lemma add_value_distinct: "distinct (map fst m) \<Longrightarrow> distinct (map fst (add_value k v m))"
proof (induction m)
  case Nil
  then show ?case by simp
next
  case (Cons kv m)
  obtain k' vs where kv: "kv = (k', vs)" by (cases kv)
  have "k' \<notin> fst ` set m" using Cons.prems kv by simp
  moreover have "fst ` set (add_value k v m) = insert k (fst ` set m)"
    using add_value_keys [of k v m] by simp
  ultimately show ?case using Cons kv by auto
qed

lemma parseQuery_distinct:
  "distinct (map fst m) \<Longrightarrow> distinct (map fst (fst (parseQuery m err pieces)))"
proof (induction pieces arbitrary: m err)
  case Nil
  then show ?case by simp
next
  case (Cons piece pieces)
  then show ?case
    by (auto simp add: add_value_distinct split: prod.splits result.splits)
qed

lemma ParseQuery_distinct: "distinct (map fst (fst (ParseQuery query)))"
  unfolding ParseQuery_def by (rule parseQuery_distinct) simp

lemma single_values_fail:
  "list_ex (\<lambda>(k, vs). length vs \<noteq> 1) q \<Longrightarrow> single_values n q = Err (UnexpectedValueCount n)"
  by (induction q) (auto split: result.splits)

lemma single_values_ok:
  "list_all (\<lambda>(k, vs). length vs = 1) q \<Longrightarrow>
   single_values n q = Ok (map (\<lambda>(k, vs). (k, vs ! 0)) q)"
  by (induction q) auto

lemma map_of_single:
  "list_all (\<lambda>(k, vs). length vs = 1) q \<Longrightarrow>
   map_of (map (\<lambda>(k, vs). (k, vs ! 0)) q) k = Some v \<longleftrightarrow> map_of q k = Some [v]"
proof (induction q)
  case Nil
  then show ?case by simp
next
  case (Cons kv q)
  obtain k' vs where kv: "kv = (k', vs)" by (cases kv)
  with Cons.prems have "length vs = 1" by simp
  then obtain x where "vs = [x]" by (cases vs) auto
  with Cons kv show ?case by auto
qed

text \<open>
  C8, as the code has it. Let the topic unescape to \<open>s\<close>. When \<open>s\<close> holds no \<open>$.\<close> the
  decoding fails with the malformed-topic error. Otherwise the query is parsed from
  the first \<open>$.\<close> on: the decoding fails when a key carries a number of values
  other than one, it fails with the error of \<open>ParseQuery\<close> when the query does not
  parse (an escape that is still malformed after the first unescaping, or a
  semicolon), and in every remaining case it returns each key of the query exactly
  once, with its single value.
\<close>

theorem parseCloudToDeviceTopic_decoding:
  assumes "QueryUnescape s0 = Ok s"
  shows "(\<not> (\<exists>a b. s = a @ ''$.'' @ b) \<longrightarrow> parseCloudToDeviceTopic s0 = Err MalformedC2DTopic) \<and>
         (\<forall>i q err. Index s ''$.'' = Some i \<and> ParseQuery (drop i s) = (q, err) \<longrightarrow>
            (list_ex (\<lambda>(k, vs). length vs \<noteq> 1) q \<longrightarrow> (\<exists>e. parseCloudToDeviceTopic s0 = Err e)) \<and>
            (\<forall>e. err = Some e \<longrightarrow> parseCloudToDeviceTopic s0 = Err e) \<and>
            (err = None \<and> list_all (\<lambda>(k, vs). length vs = 1) q \<longrightarrow>
               (\<exists>p. parseCloudToDeviceTopic s0 = Ok p \<and> distinct (map fst p) \<and>
                    map fst p = map fst q \<and>
                    (\<forall>k v. map_of p k = Some v \<longleftrightarrow> map_of q k = Some [v]))))"
proof (intro conjI allI impI)
  assume "\<not> (\<exists>a b. s = a @ ''$.'' @ b)"
  then have "Index s ''$.'' = None" using Index_None_iff [of s "''$.''"] by blast
  then show "parseCloudToDeviceTopic s0 = Err MalformedC2DTopic"
    by (simp add: parseCloudToDeviceTopic_def assms)
next
  fix i q err
  assume h: "Index s ''$.'' = Some i \<and> ParseQuery (drop i s) = (q, err)"
  assume "list_ex (\<lambda>(k, vs). length vs \<noteq> 1) q"
  then have "single_values (length q) q = Err (UnexpectedValueCount (length q))"
    by (rule single_values_fail)
  then show "\<exists>e. parseCloudToDeviceTopic s0 = Err e"
    using h by (cases err) (simp_all add: parseCloudToDeviceTopic_def assms)
next
  fix i q err e
  assume "Index s ''$.'' = Some i \<and> ParseQuery (drop i s) = (q, err)" and "err = Some e"
  then show "parseCloudToDeviceTopic s0 = Err e"
    by (simp add: parseCloudToDeviceTopic_def assms)
next
  fix i q err
  assume h: "Index s ''$.'' = Some i \<and> ParseQuery (drop i s) = (q, err)"
    and ok: "err = None \<and> list_all (\<lambda>(k, vs). length vs = 1) q"
  let ?p = "map (\<lambda>(k, vs). (k, vs ! 0)) q"
  have keys: "map fst ?p = map fst q" by (induction q) auto
  have "distinct (map fst q)" using ParseQuery_distinct [of "drop i s"] h by simp
  then have d: "distinct (map fst ?p)" by (simp only: keys)
  have r: "parseCloudToDeviceTopic s0 = Ok ?p"
    using h ok by (simp add: parseCloudToDeviceTopic_def assms single_values_ok)
  have m: "\<forall>k v. map_of ?p k = Some v \<longleftrightarrow> map_of q k = Some [v]"
    by (intro allI map_of_single conjunct2 [OF ok])
  show "\<exists>p. parseCloudToDeviceTopic s0 = Ok p \<and> distinct (map fst p) \<and>
                    map fst p = map fst q \<and>
                    (\<forall>k v. map_of p k = Some v \<longleftrightarrow> map_of q k = Some [v])"
    by (intro exI [of _ ?p] conjI r d keys m)
qed

theorem parseCloudToDeviceTopic_decoding_witness:
  "QueryUnescape ''devices/d1/messages/devicebound/%24.to=%2Fdevices%2Fd1&foo=bar'' =
     Ok ''devices/d1/messages/devicebound/$.to=/devices/d1&foo=bar'' \<and>
   Index ''devices/d1/messages/devicebound/$.to=/devices/d1&foo=bar'' ''$.'' = Some 32 \<and>
   ParseQuery (drop 32 ''devices/d1/messages/devicebound/$.to=/devices/d1&foo=bar'') =
     ([(''$.to'', [''/devices/d1'']), (''foo'', [''bar''])], None) \<and>
   list_all (\<lambda>(k, vs). length vs = 1) [(''$.to'', [''/devices/d1'']), (''foo'', [''bar''])] \<and>
   (\<exists>p. parseCloudToDeviceTopic ''devices/d1/messages/devicebound/%24.to=%2Fdevices%2Fd1&foo=bar'' = Ok p \<and>
        distinct (map fst p) \<and>
        map fst p = map fst [(''$.to'', [''/devices/d1'']), (''foo'', [''bar''])] \<and>
        (\<forall>k v. map_of p k = Some v \<longleftrightarrow>
           map_of [(''$.to'', [''/devices/d1'']), (''foo'', [''bar''])] k = Some [v])) \<and>
   QueryUnescape ''devices/d1/messages/devicebound/foo=bar'' =
     Ok ''devices/d1/messages/devicebound/foo=bar'' \<and>
   \<not> (\<exists>a b. ''devices/d1/messages/devicebound/foo=bar'' = a @ ''$.'' @ b) \<and>
   parseCloudToDeviceTopic ''devices/d1/messages/devicebound/foo=bar'' = Err MalformedC2DTopic"
proof -
  let ?t = "''devices/d1/messages/devicebound/%24.to=%2Fdevices%2Fd1&foo=bar''"
  let ?s = "''devices/d1/messages/devicebound/$.to=/devices/d1&foo=bar''"
  let ?q = "[(''$.to'', [''/devices/d1'']), (''foo'', [''bar''])]"
  let ?u = "''devices/d1/messages/devicebound/foo=bar''"
  have un: "QueryUnescape ?t = Ok ?s" by code_simp
  have ix: "Index ?s ''$.'' = Some 32" by code_simp
  have pq: "ParseQuery (drop 32 ?s) = (?q, None)" by code_simp
  have one: "list_all (\<lambda>(k, vs). length vs = 1) ?q" by simp
  have ok: "\<exists>p. parseCloudToDeviceTopic ?t = Ok p \<and> distinct (map fst p) \<and>
        map fst p = map fst ?q \<and> (\<forall>k v. map_of p k = Some v \<longleftrightarrow> map_of ?q k = Some [v])"
    using parseCloudToDeviceTopic_decoding [OF un, THEN conjunct2, rule_format, of 32 ?q None,
        THEN conjunct2, THEN conjunct2, rule_format] ix pq one
    by blast
  have un': "QueryUnescape ?u = Ok ?u" by code_simp
  have "Index ?u ''$.'' = None" by code_simp
  then have no: "\<not> (\<exists>a b. ?u = a @ ''$.'' @ b)"
    using Index_None_iff [of ?u "''$.''"] by blast
  have bad: "parseCloudToDeviceTopic ?u = Err MalformedC2DTopic"
    using parseCloudToDeviceTopic_decoding [OF un', THEN conjunct1] no by blast
  show ?thesis
    by (intro conjI un ix pq one ok un' no bad)
qed

text \<open>
  A topic that holds \<open>$.\<close> and no key with several values, and is still refused: the
  property value \<open>100%\<close> arrives as \<open>100%25\<close>, the first unescaping leaves \<open>100%\<close>,
  and the query parser refuses the lone \<open>%\<close>.
\<close>

theorem parseCloudToDeviceTopic_counterexample:
  "QueryUnescape ''devices/d1/messages/devicebound/%24.mid=abc&foo=100%25'' =
     Ok ''devices/d1/messages/devicebound/$.mid=abc&foo=100%'' \<and>
   Index ''devices/d1/messages/devicebound/$.mid=abc&foo=100%'' ''$.'' = Some 32 \<and>
   ParseQuery (drop 32 ''devices/d1/messages/devicebound/$.mid=abc&foo=100%'') =
     ([(''$.mid'', [''abc''])], Some EscapeError) \<and>
   parseCloudToDeviceTopic ''devices/d1/messages/devicebound/%24.mid=abc&foo=100%25'' =
     Err EscapeError"
  by code_simp

section \<open>Shared access signature of the test scenario\<close>

lemma b64_decode_test_key: "b64_decode ''dGVzdA=='' = Ok ''test''"
  by code_simp

lemma itoa_expiry: "itoa 1600003600 = ''1600003600''"
  by (simp add: itoa_def nat_digits.simps digit_char_def)

lemma QueryEscape_scenario:
  "QueryEscape ''h.example'' = ''h.example''"
  "QueryEscape ''1600003600'' = ''1600003600''"
  "QueryEscape ''p'' = ''p''"
  "QueryEscape [] = []"
  by code_simp+

text \<open>
  C5. Host name \<open>h.example\<close>, key \<open>dGVzdA==\<close>, policy name \<open>p\<close>, the clock override
  at Unix time 1600000000 and a duration of 3600 seconds: the key decodes to \<open>test\<close>
  and the token is \<open>sr=h.example\<close>, then \<open>sig\<close> as the escaped base64 text of the keyed
  hash of \<open>h.example\<close>, a line feed and \<open>1600003600\<close> under the key \<open>test\<close>, then
  \<open>se=1600003600\<close> and \<open>skn=p\<close>, whatever the wall clock and the device id are. With
  no policy name the field \<open>skn\<close> is still there, and empty.
\<close>

theorem SAS_scenario:
  "b64_decode ''dGVzdA=='' = Ok ''test'' \<and>
   SAS hmac \<lparr>HostName = ''h.example'', DeviceID = d, SharedAccessKey = ''dGVzdA=='',
             SharedAccessKeyName = ''p'', now = 1600000000 * 1000000000\<rparr>
       clock (3600 * 1000000000) =
     Ok (''SharedAccessSignature sr=h.example'' @
         ''&sig='' @
         QueryEscape (b64_encode (hmac ''test'' (''h.example'' @ [CHR 0x0A] @ ''1600003600''))) @
         ''&se=1600003600'' @ ''&skn=p'') \<and>
   SAS hmac \<lparr>HostName = ''h.example'', DeviceID = d, SharedAccessKey = ''dGVzdA=='',
             SharedAccessKeyName = [], now = 1600000000 * 1000000000\<rparr>
       clock (3600 * 1000000000) =
     Ok (''SharedAccessSignature sr=h.example'' @
         ''&sig='' @
         QueryEscape (b64_encode (hmac ''test'' (''h.example'' @ [CHR 0x0A] @ ''1600003600''))) @
         ''&se=1600003600'' @ ''&skn='')"
  by (simp add: SAS_def b64_decode_test_key itoa_expiry QueryEscape_scenario zero_time_def
      Unix_def)

section \<open>Session state\<close>

lemma connected_transport_eq:
  "connected_transport =
     \<lparr>conn = Some client1, did = ''d1'', rid = 0, done_closed = False, resp = None\<rparr>"
  by (simp add: connected_transport_def Connect_def New_def device1_def contextToken_def
      client1_def)

lemma Connect_failure_keeps_state:
  "fst (Connect v tr creds w) \<noteq> Ok () \<Longrightarrow> snd (Connect v tr creds w) = tr"
  by (auto simp add: Connect_def Let_def split: result.splits if_splits)

lemma handler_keeps_handle:
  "twin_response_handler pa tr topic payload = Ok tr' \<Longrightarrow> conn tr' = conn tr"
  by (auto simp add: twin_response_handler_def
      split: result.splits prod.splits option.splits if_splits chan.splits)

lemma deliver_keeps_handle: "deliver pa tr ms = Ok tr' \<Longrightarrow> conn tr' = conn tr"
proof (induction ms arbitrary: tr)
  case Nil
  then show ?case by simp
next
  case (Cons m ms)
  obtain topic payload where m: "m = (topic, payload)" by (cases m)
  from Cons.prems m obtain tr1 where
    h: "twin_response_handler pa tr topic payload = Ok tr1" and d: "deliver pa tr1 ms = Ok tr'"
    by (auto split: result.splits)
  from handler_keeps_handle [OF h] Cons.IH [OF d] show ?case by simp
qed

lemma request_without_handle:
  "conn tr = None \<Longrightarrow> resp tr = None \<Longrightarrow>
   request pa tr w_sub w_pub inbound sel topic b = (Panic NilDereference, tr)"
  by (simp add: request_def enableTwinResponses_def)

lemma request_keeps_handle:
  "conn tr \<noteq> None \<Longrightarrow> conn (snd (request pa tr w_sub w_pub inbound sel topic b)) \<noteq> None"
  by (auto simp add: request_def enableTwinResponses_def send_def release_def Let_def
      dest: deliver_keeps_handle
      split: result.splits prod.splits option.splits if_splits)

text \<open>
  No operation of the transport builds the registry while the handle is absent, and
  none removes a handle: in every state that the operations reach from \<open>New\<close>, a
  transport without a handle has no registry.
\<close>

lemma no_registry_without_handle:
  assumes "conn tr = None \<longrightarrow> resp tr = None"
  shows "conn (snd (Connect v tr creds w)) = None \<longrightarrow> resp (snd (Connect v tr creds w)) = None"
    and "conn (snd (Close tr)) = None \<longrightarrow> resp (snd (Close tr)) = None"
    and "conn (snd (subscribe_on tr f w)) = None \<longrightarrow> resp (snd (subscribe_on tr f w)) = None"
    and "conn (snd (send tr w topic qos b)) = None \<longrightarrow> resp (snd (send tr w topic qos b)) = None"
    and "conn (snd (Send l tr w msg)) = None \<longrightarrow> resp (snd (Send l tr w msg)) = None"
    and "conn (snd (request pa tr w_sub w_pub inbound sel topic b)) = None \<longrightarrow>
         resp (snd (request pa tr w_sub w_pub inbound sel topic b)) = None"
proof -
  show "conn (snd (Connect v tr creds w)) = None \<longrightarrow> resp (snd (Connect v tr creds w)) = None"
    using assms by (auto simp add: Connect_def Let_def split: result.splits if_splits)
  show "conn (snd (Close tr)) = None \<longrightarrow> resp (snd (Close tr)) = None"
    using assms by (auto simp add: Close_def Let_def split: option.splits if_splits)
  show "conn (snd (subscribe_on tr f w)) = None \<longrightarrow> resp (snd (subscribe_on tr f w)) = None"
    using assms by (auto simp add: subscribe_on_def split: option.splits)
  show s: "conn (snd (send tr w topic qos b)) = None \<longrightarrow> resp (snd (send tr w topic qos b)) = None"
    for topic qos b
    using assms by (auto simp add: send_def split: option.splits)
  show "conn (snd (Send l tr w msg)) = None \<longrightarrow> resp (snd (Send l tr w msg)) = None"
    using assms s by (auto simp add: Send_def Let_def split: option.splits iface.splits)
  show "conn (snd (request pa tr w_sub w_pub inbound sel topic b)) = None \<longrightarrow>
        resp (snd (request pa tr w_sub w_pub inbound sel topic b)) = None"
  proof (cases "conn tr")
    case None
    then show ?thesis using assms by (simp add: request_without_handle)
  next
    case (Some c)
    then show ?thesis
      using request_keeps_handle [of tr pa w_sub w_pub inbound sel topic b] by auto
  qed
qed

lemma enable_keeps_client:
  "client_refuses (snd (enableTwinResponses tr w)) = client_refuses tr"
  by (auto simp add: enableTwinResponses_def client_refuses_def Subscribe_def Let_def
      split: option.splits result.splits)

lemma send_keeps_client: "client_refuses (snd (send tr w topic qos b)) = client_refuses tr"
  by (auto simp add: send_def client_refuses_def Publish_def split: option.splits)

lemma release_keeps_client: "client_refuses (release r tr) = client_refuses tr"
  by (auto simp add: release_def client_refuses_def split: option.splits)

lemma request_keeps_client:
  assumes "client_refuses tr"
  shows "client_refuses (snd (request pa tr w_sub w_pub inbound sel topic b))"
proof -
  obtain res1 tr1 where e: "enableTwinResponses tr w_sub = (res1, tr1)"
    by (cases "enableTwinResponses tr w_sub")
  have c1: "client_refuses tr1" using enable_keeps_client [of tr w_sub] e assms by simp
  show ?thesis
  proof (cases res1)
    case (Ok u)
    let ?r = "rid tr1 + 1"
    show ?thesis
    proof (cases "resp tr1")
      case None
      then show ?thesis using e Ok c1 by (simp add: request_def Let_def client_refuses_def)
    next
      case (Some m)
      let ?tr3 = "tr1\<lparr>rid := ?r, resp := Some (m(?r \<mapsto> Empty))\<rparr>"
      obtain res4 tr4 where s: "send ?tr3 w_pub (topic @ itoa (uint ?r)) defaultQoS b = (res4, tr4)"
        by (cases "send ?tr3 w_pub (topic @ itoa (uint ?r)) defaultQoS b")
      have "client_refuses ?tr3" using c1 by (simp add: client_refuses_def)
      then have c4: "client_refuses tr4"
        using send_keeps_client [of ?tr3 w_pub "topic @ itoa (uint ?r)" defaultQoS b] s by simp
      have req: "request pa tr w_sub w_pub inbound sel topic b =
          (case res4 of
             Err e \<Rightarrow> (Err e, release ?r tr4)
           | Panic x \<Rightarrow> (Panic x, tr4)
           | Ok _ \<Rightarrow>
               (case deliver pa tr4 inbound of
                  Err e \<Rightarrow> (Err e, release ?r tr4)
                | Panic x \<Rightarrow> (Panic x, tr4)
                | Ok tr5 \<Rightarrow> (select_reply tr5 ?r sel, release ?r tr5)))"
        by (simp add: request_def e Ok Some Let_def s)
      show ?thesis
      proof (cases res4)
        case (Ok u')
        show ?thesis
        proof (cases "deliver pa tr4 inbound")
          case (Ok tr5)
          from deliver_keeps_handle [OF Ok] c4 have "client_refuses tr5"
            by (simp add: client_refuses_def)
          then show ?thesis using req \<open>res4 = Ok u'\<close> Ok by (simp add: release_keeps_client)
        next
          case (Err e)
          then show ?thesis using req \<open>res4 = Ok u'\<close> c4 by (simp add: release_keeps_client)
        next
          case (Panic x)
          then show ?thesis using req \<open>res4 = Ok u'\<close> c4 by simp
        qed
      next
        case (Err e)
        then show ?thesis using req c4 by (simp add: release_keeps_client)
      next
        case (Panic x)
        then show ?thesis using req c4 by simp
      qed
    qed
  next
    case (Err e)
    then show ?thesis using e c1 by (simp add: request_def)
  next
    case (Panic x)
    then show ?thesis using e c1 by (simp add: request_def)
  qed
qed

text \<open>
  A client that is not connected stays so: no operation of the transport connects the
  client it holds.
\<close>

lemma refusing_client_stays:
  assumes "client_refuses tr"
  shows "client_refuses (snd (Connect v tr creds w))"
    and "client_refuses (snd (Close tr))"
    and "client_refuses (snd (subscribe_on tr f w))"
    and "client_refuses (snd (send tr w topic qos b))"
    and "client_refuses (snd (Send l tr w msg))"
    and "client_refuses (snd (request pa tr w_sub w_pub inbound sel topic b))"
proof -
  show "client_refuses (snd (Connect v tr creds w))"
    using assms by (auto simp add: Connect_def client_refuses_def split: option.splits)
  show "client_refuses (snd (Close tr))"
    using assms
    by (auto simp add: Close_def Let_def client_refuses_def Disconnect_def split: option.splits)
  show "client_refuses (snd (subscribe_on tr f w))"
    using assms
    by (auto simp add: subscribe_on_def client_refuses_def Subscribe_def split: option.splits)
  show s: "client_refuses (snd (send tr w topic qos b))" for topic qos b
    using assms by (auto simp add: send_def client_refuses_def Publish_def split: option.splits)
  show "client_refuses (snd (Send l tr w msg))"
    using assms s by (auto simp add: Send_def Let_def split: option.splits iface.splits)
  show "client_refuses (snd (request pa tr w_sub w_pub inbound sel topic b))"
    using assms by (rule request_keeps_client)
qed

text \<open>
  C3, as the code has it. While the connection handle is absent, which is the state
  before any \<open>Connect\<close> has succeeded, publishing fails with the transport's
  \<open>NotConnected\<close>, and it still does after \<open>Close\<close> has been called in that state. The
  first \<open>Close\<close> of a transport that holds a handle leaves the handle in place, with a
  client that is not connected. In every state with such a client, which by
  \<open>refusing_client_stays\<close> is every state from then on, publishing fails: with the
  client's own not-connected error when the wait ends with the token, and with the
  error of the context when the caller's context ends the wait first.
\<close>

theorem send_not_connected:
  "(conn tr = None \<longrightarrow>
      fst (send tr w topic qos b) = Err NotConnected \<and>
      fst (send (snd (Close tr)) w topic qos b) = Err NotConnected) \<and>
   (conn tr \<noteq> None \<and> \<not> done_closed tr \<longrightarrow> client_refuses (snd (Close tr))) \<and>
   (client_refuses tr \<longrightarrow>
      fst (send tr w topic qos b) =
        (case w of TokenDone r \<Rightarrow> Err ClientNotConnected | ContextDone e \<Rightarrow> Err e))"
  by (auto simp add: send_def Close_def Let_def client_refuses_def Disconnect_def
      publish_wait_def contextToken_def split: option.splits token_wait.splits)

theorem send_not_connected_witness:
  "conn New = None \<and>
   fst (send New (TokenDone None) ''t'' 1 ''x'') = Err NotConnected \<and>
   fst (send (snd (Close New)) (TokenDone None) ''t'' 1 ''x'') = Err NotConnected \<and>
   conn connected_transport \<noteq> None \<and> \<not> done_closed connected_transport \<and>
   client_refuses (snd (Close connected_transport)) \<and>
   fst (send (snd (Close connected_transport)) (TokenDone None) ''t'' 1 ''x'') =
     Err ClientNotConnected"
proof -
  have n: "conn New = None" by (simp add: New_def)
  have c: "conn connected_transport \<noteq> None \<and> \<not> done_closed connected_transport"
    by (simp add: connected_transport_eq)
  note a = send_not_connected [of New "TokenDone None" "''t''" 1 "''x''", THEN conjunct1,
      rule_format, OF n]
  note r = send_not_connected [of connected_transport "TokenDone None" "''t''" 1 "''x''",
      THEN conjunct2, THEN conjunct1, rule_format, OF c]
  have "fst (send (snd (Close connected_transport)) (TokenDone None) ''t'' 1 ''x'') =
          Err ClientNotConnected"
    using send_not_connected [of "snd (Close connected_transport)" "TokenDone None" "''t''" 1
        "''x''", THEN conjunct2, THEN conjunct2, rule_format, OF r]
    by simp
  with n c a r show ?thesis by blast
qed

text \<open>
  Two runs in which \<open>Close\<close> has been called and publishing does not fail with a
  not-connected error. \<open>Connect\<close> does not look at \<open>done\<close>: on a new transport,
  \<open>Close\<close> followed by a \<open>Connect\<close> that succeeds gives a connected client, and the
  publication succeeds when its token does. And after \<open>Connect\<close> and \<open>Close\<close>, a
  caller whose context is cancelled gets the error of the context.
\<close>

theorem send_after_close_counterexample:
  "fst (Close New) = Ok () \<and>
   done_closed (snd (Close New)) \<and>
   fst (Connect ''2018-06-30'' (snd (Close New)) device1 (TokenDone None)) = Ok () \<and>
   fst (send (snd (Connect ''2018-06-30'' (snd (Close New)) device1 (TokenDone None)))
          (TokenDone None) ''t'' 1 ''x'') = Ok () \<and>
   fst (Close connected_transport) = Ok () \<and>
   fst (send (snd (Close connected_transport)) (ContextDone (ContextError ''context canceled''))
          ''t'' 1 ''x'') = Err (ContextError ''context canceled'')"
  by (simp add: send_def Close_def connected_transport_eq contextToken_def Disconnect_def
      client1_def Let_def Connect_def New_def device1_def publish_wait_def)

text \<open>
  C10. On a transport without a connection handle, and hence without the twin
  subscription, the three subscriptions and the two twin operations panic with a nil
  dereference, whatever the tokens and the context would have done; publishing is the
  only operation that returns \<open>NotConnected\<close>.
\<close>

theorem operations_before_connect:
  assumes "conn tr = None" and "resp tr = None"
  shows "fst (SubscribeEvents tr w) = Panic NilDereference \<and>
         fst (SubscribeTwinUpdates tr w) = Panic NilDereference \<and>
         fst (RegisterDirectMethods tr w) = Panic NilDereference \<and>
         fst (RetrieveTwinProperties pa tr w_sub w_pub inbound sel) = Panic NilDereference \<and>
         fst (UpdateTwinProperties pa tr w_sub w_pub inbound sel b) = Panic NilDereference \<and>
         fst (send tr w topic qos b) = Err NotConnected"
  using assms
  by (simp add: SubscribeEvents_def SubscribeTwinUpdates_def RegisterDirectMethods_def
      subscribe_on_def RetrieveTwinProperties_def UpdateTwinProperties_def request_def
      enableTwinResponses_def send_def)

theorem operations_before_connect_witness:
  "conn New = None \<and> resp New = None \<and>
   fst (SubscribeEvents New (TokenDone None)) = Panic NilDereference \<and>
   fst (SubscribeTwinUpdates New (TokenDone None)) = Panic NilDereference \<and>
   fst (RegisterDirectMethods New (TokenDone None)) = Panic NilDereference \<and>
   fst (RetrieveTwinProperties any_authority New (TokenDone None) (TokenDone None) [] After30s) =
     Panic NilDereference \<and>
   fst (UpdateTwinProperties any_authority New (TokenDone None) (TokenDone None) [] After30s ''{}'') =
     Panic NilDereference \<and>
   fst (send New (TokenDone None) ''t'' 1 ''{}'') = Err NotConnected"
  using operations_before_connect [where tr = New and w = "TokenDone None" and pa = any_authority
      and w_sub = "TokenDone None" and w_pub = "TokenDone None" and inbound = "[]"
      and sel = After30s and b = "''{}''" and topic = "''t''" and qos = 1]
  by (simp add: New_def send_def)

section \<open>Telemetry topics\<close>

lemma map_of_set_value:
  "map_of (set_value k v m) k' = (if k' = k then Some [v] else map_of m k')"
  by (induction m) auto

lemma set_value_keys: "fst ` set (set_value k v m) = insert k (fst ` set m)"
proof (induction m)
  case Nil
  then show ?case by simp
next
  case (Cons kv m)
  obtain k' vs where kv: "kv = (k', vs)" by (cases kv)
  show ?case
  proof (cases "k = k'")
    case True
    then show ?thesis using kv by auto
  next
    case False
    then show ?thesis using kv Cons by auto
  qed
qed

lemma set_value_distinct: "distinct (map fst m) \<Longrightarrow> distinct (map fst (set_value k v m))"
proof (induction m)
  case Nil
  then show ?case by simp
next
  case (Cons kv m)
  obtain k' vs where kv: "kv = (k', vs)" by (cases kv)
  have "k' \<notin> fst ` set m" using Cons.prems kv by simp
  then show ?case using Cons kv set_value_keys [of k v m] by auto
qed

lemma fold_set_value_distinct:
  "distinct (map fst u) \<Longrightarrow> distinct (map fst (fold (\<lambda>(k, v) u. set_value k v u) ps u))"
  by (induction ps arbitrary: u) (auto simp add: set_value_distinct)

lemma map_of_fold_set_value:
  "distinct (map fst ps) \<Longrightarrow>
   map_of (fold (\<lambda>(k, v) u. set_value k v u) ps u) k =
     (case map_of ps k of Some v \<Rightarrow> Some [v] | None \<Rightarrow> map_of u k)"
proof (induction ps arbitrary: u)
  case Nil
  then show ?case by simp
next
  case (Cons kv ps)
  obtain k' v' where kv: "kv = (k', v')" by (cases kv)
  have notin: "k' \<notin> fst ` set ps" and d: "distinct (map fst ps)"
    using Cons.prems kv by simp_all
  then have none: "map_of ps k' = None" by (simp add: map_of_eq_None_iff)
  show ?case
    using Cons.IH [OF d, of "set_value k' v' u"] none
    by (auto simp add: kv map_of_set_value split: option.splits)
qed

lemma system_values_distinct: "distinct (map fst (system_values rfc3339 msg))"
  by (simp add: system_values_def Let_def set_value_distinct split: option.splits)

lemma map_of_system_values:
  "map_of (system_values rfc3339 msg) k =
     (if k = ''$.mid'' \<and> MessageID msg \<noteq> [] then Some [MessageID msg]
      else if k = ''$.cid'' \<and> CorrelationID msg \<noteq> [] then Some [CorrelationID msg]
      else if k = ''$.uid'' \<and> UserID msg \<noteq> [] then Some [UserID msg]
      else if k = ''$.to'' \<and> To msg \<noteq> [] then Some [To msg]
      else if k = ''$.exp'' then
        (case ExpiryTime msg of
           None \<Rightarrow> None
         | Some t \<Rightarrow> if t \<noteq> zero_time then Some [rfc3339 t] else None)
      else None)"
  by (simp add: system_values_def Let_def map_of_set_value split: option.splits)

text \<open>
  C4, as the code has it. On a connected transport \<open>Send\<close> publishes on
  \<open>devices/{deviceId}/messages/events/\<close> followed by the encoded query of a set of
  keys with one value each: every user property, also one whose value is empty, and
  every system property whose value is not empty and whose key is not the key of a
  user property.
\<close>

theorem Send_topic_properties:
  assumes "distinct (map fst (Properties msg))"
    and "conn tr = Some c"
    and "map_of (TransportOptions msg) ''qos'' = None \<or>
         (\<exists>q. map_of (TransportOptions msg) ''qos'' = Some (IntVal q))"
  shows "map_option published (conn (snd (Send rfc3339 tr w msg))) =
           Some (published c @
                 [(''devices/'' @ did tr @ ''/messages/events/'' @ Encode (Send_values rfc3339 msg),
                   defaultQoS, False, Payload msg)]) \<and>
         distinct (map fst (Send_values rfc3339 msg)) \<and>
         (\<forall>k. map_of (Send_values rfc3339 msg) k =
            (case map_of (Properties msg) k of
               Some v \<Rightarrow> Some [v]
             | None \<Rightarrow>
                 if k = ''$.mid'' \<and> MessageID msg \<noteq> [] then Some [MessageID msg]
                 else if k = ''$.cid'' \<and> CorrelationID msg \<noteq> [] then Some [CorrelationID msg]
                 else if k = ''$.uid'' \<and> UserID msg \<noteq> [] then Some [UserID msg]
                 else if k = ''$.to'' \<and> To msg \<noteq> [] then Some [To msg]
                 else if k = ''$.exp'' then
                   (case ExpiryTime msg of
                      None \<Rightarrow> None
                    | Some t \<Rightarrow> if t \<noteq> zero_time then Some [rfc3339 t] else None)
                 else None))"
proof (intro conjI allI)
  show "map_option published (conn (snd (Send rfc3339 tr w msg))) =
           Some (published c @
                 [(''devices/'' @ did tr @ ''/messages/events/'' @ Encode (Send_values rfc3339 msg),
                   defaultQoS, False, Payload msg)])"
    using assms(2,3) by (auto simp add: Send_def Send_topic_def send_def Publish_def)
  show "distinct (map fst (Send_values rfc3339 msg))"
    unfolding Send_values_def by (rule fold_set_value_distinct) (rule system_values_distinct)
  fix k
  show "map_of (Send_values rfc3339 msg) k =
            (case map_of (Properties msg) k of
               Some v \<Rightarrow> Some [v]
             | None \<Rightarrow>
                 if k = ''$.mid'' \<and> MessageID msg \<noteq> [] then Some [MessageID msg]
                 else if k = ''$.cid'' \<and> CorrelationID msg \<noteq> [] then Some [CorrelationID msg]
                 else if k = ''$.uid'' \<and> UserID msg \<noteq> [] then Some [UserID msg]
                 else if k = ''$.to'' \<and> To msg \<noteq> [] then Some [To msg]
                 else if k = ''$.exp'' then
                   (case ExpiryTime msg of
                      None \<Rightarrow> None
                    | Some t \<Rightarrow> if t \<noteq> zero_time then Some [rfc3339 t] else None)
                 else None)"
    unfolding Send_values_def map_of_fold_set_value [OF assms(1)] map_of_system_values ..
qed

theorem Send_topic_properties_witness:
  "distinct (map fst (Properties (hello\<lparr>MessageID := ''m-1'', Properties := [(''foo'', ''bar'')]\<rparr>))) \<and>
   conn connected_transport = Some client1 \<and>
   map_of (TransportOptions (hello\<lparr>MessageID := ''m-1'', Properties := [(''foo'', ''bar'')]\<rparr>))
     ''qos'' = None \<and>
   map_option published
     (conn (snd (Send no_expiry_layout connected_transport (TokenDone None)
                  (hello\<lparr>MessageID := ''m-1'', Properties := [(''foo'', ''bar'')]\<rparr>)))) =
     Some [(''devices/d1/messages/events/%24.mid=m-1&foo=bar'', 1, False, ''hello'')]"
proof -
  let ?msg = "hello\<lparr>MessageID := ''m-1'', Properties := [(''foo'', ''bar'')]\<rparr>"
  have d: "distinct (map fst (Properties ?msg))" by simp
  have c: "conn connected_transport = Some client1" by (simp add: connected_transport_eq)
  have q: "map_of (TransportOptions ?msg) ''qos'' = None" by (simp add: hello_def)
  have e: "Encode (Send_values no_expiry_layout ?msg) = ''%24.mid=m-1&foo=bar''"
    by code_simp
  have "map_option published
          (conn (snd (Send no_expiry_layout connected_transport (TokenDone None) ?msg))) =
        Some [(''devices/d1/messages/events/%24.mid=m-1&foo=bar'', 1, False, ''hello'')]"
    unfolding Send_topic_properties [OF d c disjI1 [OF q], of no_expiry_layout "TokenDone None",
        THEN conjunct1] e
    by (simp add: client1_def connected_transport_eq defaultQoS_def hello_def)
  with d c q show ?thesis by blast
qed

text \<open>A user property with an empty value stays in the topic, as \<open>k=\<close>.\<close>

theorem Send_keeps_empty_property_counterexample:
  "map_option published
     (conn (snd (Send no_expiry_layout connected_transport (TokenDone None)
                  (hello\<lparr>Properties := [(''k'', [])]\<rparr>)))) =
   Some [(''devices/d1/messages/events/k='', 1, False, ''hello'')]"
  by (simp add: Send_def Send_topic_def Send_values_def system_values_def hello_def send_def
      connected_transport_eq client1_def Publish_def defaultQoS_def Encode_def encode_key_def
      QueryEscape_def escape_byte_def unreserved_def isalpha_def isdigit_def)

text \<open>
  C2. \<open>Send\<close> reads the option \<open>qos\<close> and hands it to \<open>send\<close>, which publishes at
  \<open>defaultQoS\<close> whatever it was handed: a message that asks for quality of service 0
  is published at 1.
\<close>

theorem Send_publishes_at_default_qos:
  "map_option published
     (conn (snd (Send no_expiry_layout connected_transport (TokenDone None)
                  (hello\<lparr>TransportOptions := [(''qos'', IntVal 0)]\<rparr>)))) =
   Some [(''devices/d1/messages/events/'', 1, False, ''hello'')]"
  by (simp add: Send_def Send_topic_def Send_values_def system_values_def hello_def send_def
      connected_transport_eq client1_def Publish_def defaultQoS_def Encode_def)

section \<open>Twin requests and the registry\<close>

lemma twin_topic_404:
  "parseTwinPropsTopic any_authority ''$iothub/twin/res/404/?$rid=1'' = Ok (404, 1, 0)"
  by code_simp

lemma enableTwinResponses_ok:
  assumes "fst (enableTwinResponses tr w) = Ok ()"
  shows "resp (snd (enableTwinResponses tr w)) \<noteq> None \<and>
         rid (snd (enableTwinResponses tr w)) = rid tr"
  using assms
  by (auto simp add: enableTwinResponses_def Let_def split: if_splits option.splits result.splits)

lemma send_keeps_registry:
  "resp (snd (send tr w topic qos b)) = resp tr \<and> rid (snd (send tr w topic qos b)) = rid tr"
  by (simp add: send_def split: option.splits)

lemma handler_keeps_registry:
  assumes "twin_response_handler pa tr topic payload = Ok tr'"
  shows "rid tr' = rid tr \<and> (resp tr \<noteq> None \<longrightarrow> resp tr' \<noteq> None)"
  using assms
  by (auto simp add: twin_response_handler_def
      split: result.splits prod.splits option.splits if_splits chan.splits)

lemma deliver_keeps_registry:
  "deliver pa tr ms = Ok tr' \<Longrightarrow> rid tr' = rid tr \<and> (resp tr \<noteq> None \<longrightarrow> resp tr' \<noteq> None)"
proof (induction ms arbitrary: tr)
  case Nil
  then show ?case by simp
next
  case (Cons m ms)
  obtain topic payload where m: "m = (topic, payload)" by (cases m)
  from Cons.prems m obtain tr1 where
    h: "twin_response_handler pa tr topic payload = Ok tr1" and d: "deliver pa tr1 ms = Ok tr'"
    by (auto split: result.splits)
  from handler_keeps_registry [OF h] Cons.IH [OF d] show ?case by simp
qed

lemma deliver_no_error: "deliver pa tr ms \<noteq> Err e"
  by (induction ms arbitrary: tr)
    (auto simp add: twin_response_handler_def
      split: result.splits prod.splits option.splits if_splits chan.splits)

lemma release_slot:
  "resp tr \<noteq> None \<Longrightarrow>
   rid (release r tr) = rid tr \<and> (\<exists>m. resp (release r tr) = Some m \<and> m r = None)"
  by (auto simp add: release_def)

text \<open>
  C6. When \<open>enableTwinResponses\<close> succeeds, so that \<open>request\<close> registers a slot
  under the next request id, and \<open>request\<close> returns (with the response, or with an
  error from the publication, the timer or the context), the registry holds no slot
  under that id afterwards.
\<close>

theorem request_releases_slot:
  assumes "fst (enableTwinResponses tr w_sub) = Ok ()"
    and "\<forall>x. fst (request pa tr w_sub w_pub inbound sel topic b) \<noteq> Panic x"
  shows "rid (snd (request pa tr w_sub w_pub inbound sel topic b)) = rid tr + 1 \<and>
         (\<exists>m. resp (snd (request pa tr w_sub w_pub inbound sel topic b)) = Some m \<and>
              m (rid tr + 1) = None)"
proof -
  obtain tr1 where e: "enableTwinResponses tr w_sub = (Ok (), tr1)"
    using assms(1) by (cases "enableTwinResponses tr w_sub") auto
  from enableTwinResponses_ok [OF assms(1)] e obtain m where
    m: "resp tr1 = Some m" and r1: "rid tr1 = rid tr" by auto
  let ?r = "rid tr + 1"
  let ?tr3 = "tr1\<lparr>rid := ?r, resp := Some (m(?r \<mapsto> Empty))\<rparr>"
  obtain res4 tr4 where s: "send ?tr3 w_pub (topic @ itoa (uint ?r)) defaultQoS b = (res4, tr4)"
    by (cases "send ?tr3 w_pub (topic @ itoa (uint ?r)) defaultQoS b")
  from send_keeps_registry [of ?tr3 w_pub "topic @ itoa (uint ?r)" defaultQoS b] s
  have tr4: "resp tr4 \<noteq> None" "rid tr4 = ?r" by simp_all
  have req: "request pa tr w_sub w_pub inbound sel topic b =
      (case res4 of
         Err e \<Rightarrow> (Err e, release ?r tr4)
       | Panic x \<Rightarrow> (Panic x, tr4)
       | Ok _ \<Rightarrow>
           (case deliver pa tr4 inbound of
              Err e \<Rightarrow> (Err e, release ?r tr4)
            | Panic x \<Rightarrow> (Panic x, tr4)
            | Ok tr5 \<Rightarrow> (select_reply tr5 ?r sel, release ?r tr5)))"
    by (simp add: request_def e m r1 Let_def s split: result.splits)
  show ?thesis
  proof (cases res4)
    case (Ok u)
    show ?thesis
    proof (cases "deliver pa tr4 inbound")
      case (Ok tr5)
      from deliver_keeps_registry [OF Ok] tr4 have "resp tr5 \<noteq> None" "rid tr5 = ?r" by simp_all
      with release_slot [of tr5 ?r] show ?thesis using req \<open>res4 = Ok u\<close> Ok by simp
    next
      case (Err e)
      then show ?thesis using deliver_no_error by blast
    next
      case (Panic x)
      then show ?thesis using req \<open>res4 = Ok u\<close> assms(2) by simp
    qed
  next
    case (Err e)
    with release_slot [of tr4 ?r] tr4 show ?thesis using req by simp
  next
    case (Panic x)
    then show ?thesis using req assms(2) by simp
  qed
qed

lemma twin_topic_200:
  "parseTwinPropsTopic any_authority ''$iothub/twin/res/200/?$rid=1'' = Ok (200, 1, 0)"
  by code_simp

lemma request_paths:
  "fst (request any_authority connected_transport (TokenDone None) (TokenDone None)
          [(''$iothub/twin/res/200/?$rid=1'', ''{}'')] Reply ''$iothub/twin/GET/?$rid='' []) =
     Ok \<lparr>code = 200, body = ''{}'', ver = 0\<rparr>"
  "fst (request any_authority connected_transport (TokenDone None) (TokenDone None)
          [] After30s ''$iothub/twin/GET/?$rid='' []) = Err RequestTimedOut"
  "fst (request any_authority connected_transport (TokenDone None) (TokenDone None)
          [] (CtxDone (ContextError ''context canceled'')) ''$iothub/twin/GET/?$rid='' []) =
     Err (ContextError ''context canceled'')"
  "fst (request any_authority connected_transport (TokenDone None)
          (TokenDone (Some (LibraryError ''Network Error'')))
          [] Reply ''$iothub/twin/GET/?$rid='' []) = Err (LibraryError ''Network Error'')"
  by (simp_all add: request_def enableTwinResponses_def connected_transport_eq
      contextToken_def send_def publish_wait_def client1_def Subscribe_def Publish_def
      defaultQoS_def twin_response_handler_def
      twin_topic_200 select_reply_def release_def)

theorem request_releases_slot_witness:
  "fst (enableTwinResponses connected_transport (TokenDone None)) = Ok () \<and>
   fst (request any_authority connected_transport (TokenDone None) (TokenDone None)
          [(''$iothub/twin/res/200/?$rid=1'', ''{}'')] Reply ''$iothub/twin/GET/?$rid='' []) =
     Ok \<lparr>code = 200, body = ''{}'', ver = 0\<rparr> \<and>
   (\<exists>m. resp (snd (request any_authority connected_transport (TokenDone None) (TokenDone None)
          [(''$iothub/twin/res/200/?$rid=1'', ''{}'')] Reply ''$iothub/twin/GET/?$rid='' [])) =
          Some m \<and> m 1 = None) \<and>
   fst (request any_authority connected_transport (TokenDone None) (TokenDone None)
          [] After30s ''$iothub/twin/GET/?$rid='' []) = Err RequestTimedOut \<and>
   (\<exists>m. resp (snd (request any_authority connected_transport (TokenDone None) (TokenDone None)
          [] After30s ''$iothub/twin/GET/?$rid='' [])) = Some m \<and> m 1 = None) \<and>
   fst (request any_authority connected_transport (TokenDone None) (TokenDone None)
          [] (CtxDone (ContextError ''context canceled'')) ''$iothub/twin/GET/?$rid='' []) =
     Err (ContextError ''context canceled'') \<and>
   (\<exists>m. resp (snd (request any_authority connected_transport (TokenDone None) (TokenDone None)
          [] (CtxDone (ContextError ''context canceled'')) ''$iothub/twin/GET/?$rid='' [])) =
          Some m \<and> m 1 = None) \<and>
   fst (request any_authority connected_transport (TokenDone None)
          (TokenDone (Some (LibraryError ''Network Error'')))
          [] Reply ''$iothub/twin/GET/?$rid='' []) = Err (LibraryError ''Network Error'') \<and>
   (\<exists>m. resp (snd (request any_authority connected_transport (TokenDone None)
          (TokenDone (Some (LibraryError ''Network Error'')))
          [] Reply ''$iothub/twin/GET/?$rid='' [])) = Some m \<and> m 1 = None)"
proof -
  have en: "fst (enableTwinResponses connected_transport (TokenDone None)) = Ok ()"
    by (simp add: enableTwinResponses_def connected_transport_eq contextToken_def)
  have zero: "rid connected_transport + 1 = 1"
    by (simp add: connected_transport_eq)
  note slot = request_releases_slot [OF en, where pa = any_authority and w_pub = "TokenDone None"
      and topic = "''$iothub/twin/GET/?$rid=''" and b = "[]", unfolded zero, THEN conjunct2]
  note slot' = request_releases_slot [OF en, where pa = any_authority
      and w_pub = "TokenDone (Some (LibraryError ''Network Error''))"
      and topic = "''$iothub/twin/GET/?$rid=''" and b = "[]", unfolded zero, THEN conjunct2]
  show ?thesis
    by (intro conjI en request_paths slot slot') (simp_all add: request_paths)
qed

lemma reply_is_returned:
  "resp tr = Some m \<Longrightarrow> m r = Some (Full x) \<Longrightarrow> select_reply tr r Reply = Ok x"
  by (simp add: select_reply_def)

text \<open>
  C1. The test of the status code in \<open>request\<close> asks for a code that is below 200 and
  above 299 at once, which no code is: the reply with status 404 is returned as a
  success, and \<open>RetrieveTwinProperties\<close> returns its body.
\<close>

theorem request_passes_failure_status:
  "fst (RetrieveTwinProperties any_authority connected_transport (TokenDone None) (TokenDone None)
          [(''$iothub/twin/res/404/?$rid=1'', ''not found'')] Reply) = Ok ''not found''"
  by (simp add: RetrieveTwinProperties_def request_def enableTwinResponses_def connected_transport_eq
      contextToken_def send_def publish_wait_def client1_def Subscribe_def Publish_def
      defaultQoS_def twin_response_handler_def
      twin_topic_404 select_reply_def release_def)

end
